theory Spec2Isabelle
  imports Complex_Main "HOL-Library.Multiset" "HOL-Library.Word"
begin

unbundle bit_operations_syntax

section \<open>Python values and exceptions\<close>

text \<open>
  The model of \<^verbatim>\<open>resources/fetch_podcast.py\<close>. A Python \<^verbatim>\<open>str\<close> is a \<^typ>\<open>string\<close>
  whose characters are the code points below 256 (Latin-1), so that the Unicode
  predicates the script calls (\<^verbatim>\<open>str.isdigit\<close>, \<^verbatim>\<open>str.strip\<close>) are finite tables;
  \<^verbatim>\<open>None\<close> is \<^term>\<open>None\<close>; an exception that leaves a function is the \<^term>\<open>Inl\<close> of
  its result.
\<close>

datatype py_error = ValueError | TypeError | OverflowError | OtherError string

definition truthy :: "'a list option \<Rightarrow> bool" where
  "truthy v = (case v of None \<Rightarrow> False | Some s \<Rightarrow> s \<noteq> [])"

definition py_or :: "'a list option \<Rightarrow> 'a list option \<Rightarrow> 'a list option" where
  "py_or a b = (if truthy a then a else b)"

definition or_empty :: "string option \<Rightarrow> string" where
  "or_empty v = (case py_or v (Some []) of None \<Rightarrow> [] | Some s \<Rightarrow> s)"

fun sequence_sum :: "('e + 'a) list \<Rightarrow> 'e + 'a list" where
  "sequence_sum [] = Inr []"
| "sequence_sum (x # xs) =
     (case x of
        Inl e \<Rightarrow> Inl e
      | Inr v \<Rightarrow> (case sequence_sum xs of Inl e \<Rightarrow> Inl e | Inr vs \<Rightarrow> Inr (v # vs)))"

subsection \<open>String methods\<close>

definition isspace_char :: "char \<Rightarrow> bool" where
  "isspace_char c =
     (let n = (of_char c :: nat)
      in (9 \<le> n \<and> n \<le> 13) \<or> (28 \<le> n \<and> n \<le> 32) \<or> n = 133 \<or> n = 160)"

definition isdecimal_char :: "char \<Rightarrow> bool" where
  "isdecimal_char c = (let n = (of_char c :: nat) in 48 \<le> n \<and> n \<le> 57)"

definition isdigit_char :: "char \<Rightarrow> bool" where
  \<comment> \<open>Numeric_Type Decimal or Digit: the ASCII digits and the superscripts 2, 3 and 1.\<close>
  "isdigit_char c =
     (let n = (of_char c :: nat) in (48 \<le> n \<and> n \<le> 57) \<or> n = 178 \<or> n = 179 \<or> n = 185)"

definition py_strip :: "string \<Rightarrow> string" where
  "py_strip s = rev (dropWhile isspace_char (rev (dropWhile isspace_char s)))"

definition py_isdigit :: "string \<Rightarrow> bool" where
  "py_isdigit s = (s \<noteq> [] \<and> list_all isdigit_char s)"

fun py_split :: "char \<Rightarrow> string \<Rightarrow> string list" where
  "py_split sep [] = [[]]"
| "py_split sep (c # cs) =
     (let r = py_split sep cs
      in if c = sep then [] # r else (c # hd r) # tl r)"

definition digit_val :: "char \<Rightarrow> nat" where
  "digit_val c = of_char c - 48"

definition decimal_value :: "string \<Rightarrow> int" where
  "decimal_value s = foldl (\<lambda>a c. 10 * a + int (digit_val c)) 0 s"

definition py_int :: "nat \<Rightarrow> string \<Rightarrow> py_error + int" where
  \<comment> \<open>\<^verbatim>\<open>int(s)\<close> on a string that passed \<^verbatim>\<open>isdigit\<close> (the only strings the script
      converts): base 10, ValueError on a character that is no decimal digit, and on more
      digits than the interpreter's limit when that limit is not 0.\<close>
  "py_int max_digits s =
     (if s = [] \<or> \<not> list_all isdecimal_char s then Inl ValueError
      else if max_digits \<noteq> 0 \<and> max_digits < length s then Inl ValueError
      else Inr (decimal_value s))"

definition int_ok :: "nat \<Rightarrow> string \<Rightarrow> bool" where
  \<comment> \<open>the strings \<^verbatim>\<open>int\<close> converts: decimal digits, no more of them than the limit\<close>
  "int_ok max_digits s =
     (s \<noteq> [] \<and> list_all isdecimal_char s \<and> (max_digits = 0 \<or> length s \<le> max_digits))"

fun replace_from :: "string \<Rightarrow> string \<Rightarrow> nat \<Rightarrow> string \<Rightarrow> string" where
  "replace_from old new k [] = []"
| "replace_from old new k (c # cs) =
     (if 0 < k then replace_from old new (k - 1) cs
      else if take (length old) (c # cs) = old
           then new @ replace_from old new (length old - 1) cs
           else c # replace_from old new 0 cs)"

definition py_replace :: "string \<Rightarrow> string \<Rightarrow> string \<Rightarrow> string" where
  \<comment> \<open>\<^verbatim>\<open>s.replace(old, new)\<close>: every occurrence, left to right, without overlap.\<close>
  "py_replace old new s =
     (if old = [] then new @ concat (map (\<lambda>c. c # new) s) else replace_from old new 0 s)"

definition encode_utf8 :: "string \<Rightarrow> nat list" where
  "encode_utf8 s =
     concat (map (\<lambda>c. let n = (of_char c :: nat)
                      in if n < 128 then [n] else [192 + n div 64, 128 + n mod 64]) s)"

subsection \<open>datetime\<close>

record pydatetime =
  year :: int
  month :: int
  day :: int
  hour :: int
  minute :: int
  second :: int
  microsecond :: int
  utcoffset :: "int option"

definition is_leap :: "int \<Rightarrow> bool" where
  "is_leap y = (y mod 4 = 0 \<and> (y mod 100 \<noteq> 0 \<or> y mod 400 = 0))"

definition days_in_month :: "int \<Rightarrow> int \<Rightarrow> int" where
  "days_in_month y m =
     (if m = 2 then (if is_leap y then 29 else 28)
      else if m = 4 \<or> m = 6 \<or> m = 9 \<or> m = 11 then 30 else 31)"

definition c_int :: "int \<Rightarrow> bool" where
  "c_int x = (- 2147483648 \<le> x \<and> x \<le> 2147483647)"

definition arg_or :: "int \<Rightarrow> int list \<Rightarrow> nat \<Rightarrow> int" where
  "arg_or d xs i = (if i < length xs then xs ! i else d)"

definition datetime_utc :: "int list \<Rightarrow> py_error + pydatetime" where
  \<comment> \<open>\<^verbatim>\<open>datetime(*args, tzinfo=timezone.utc)\<close> for at most six positional arguments.\<close>
  "datetime_utc args =
     (case args of
        y # m # d # rest \<Rightarrow>
          (let hh = arg_or 0 rest 0; mm = arg_or 0 rest 1; ss = arg_or 0 rest 2
           in if \<not> list_all c_int args then Inl OverflowError
              else if y < 1 \<or> 9999 < y \<or> m < 1 \<or> 12 < m \<or> d < 1 \<or> days_in_month y m < d
                      \<or> hh < 0 \<or> 23 < hh \<or> mm < 0 \<or> 59 < mm \<or> ss < 0 \<or> 59 < ss
                   then Inl ValueError
              else Inr \<lparr>year = y, month = m, day = d, hour = hh, minute = mm, second = ss,
                        microsecond = 0, utcoffset = Some 0\<rparr>)
      | _ \<Rightarrow> Inl TypeError)"

definition digit_char :: "int \<Rightarrow> char" where
  "digit_char n = char_of (48 + nat (n mod 10))"

definition pad2 :: "int \<Rightarrow> string" where
  "pad2 n = [digit_char (n div 10), digit_char n]"

definition pad4 :: "int \<Rightarrow> string" where
  "pad4 n = [digit_char (n div 1000), digit_char (n div 100), digit_char (n div 10), digit_char n]"

definition pad6 :: "int \<Rightarrow> string" where
  "pad6 n = pad2 (n div 10000) @ pad4 n"

definition format_offset :: "int \<Rightarrow> string" where
  "format_offset off =
     (let a = \<bar>off\<bar>
      in (if off < 0 then ''-'' else ''+'') @ pad2 (a div 3600) @ '':'' @ pad2 (a mod 3600 div 60)
         @ (if a mod 60 \<noteq> 0 then '':'' @ pad2 (a mod 60) else []))"

definition iso_stem :: "pydatetime \<Rightarrow> string" where
  \<comment> \<open>the date and the time of \<^verbatim>\<open>isoformat()\<close>, before the offset\<close>
  "iso_stem dt =
     pad4 (year dt) @ ''-'' @ pad2 (month dt) @ ''-'' @ pad2 (day dt) @ ''T''
     @ pad2 (hour dt) @ '':'' @ pad2 (minute dt) @ '':'' @ pad2 (second dt)
     @ (if microsecond dt \<noteq> 0 then ''.'' @ pad6 (microsecond dt) else [])"

definition isoformat :: "pydatetime \<Rightarrow> string" where
  "isoformat dt =
     iso_stem dt @ (case utcoffset dt of None \<Rightarrow> [] | Some off \<Rightarrow> format_offset off)"

definition days_before_year :: "int \<Rightarrow> int" where
  "days_before_year y = (y - 1) * 365 + (y - 1) div 4 - (y - 1) div 100 + (y - 1) div 400"

definition days_before_month :: "int \<Rightarrow> int \<Rightarrow> int" where
  "days_before_month y m = sum_list (map (days_in_month y) [1..m - 1])"

definition ymd2ord :: "int \<Rightarrow> int \<Rightarrow> int \<Rightarrow> int" where
  "ymd2ord y m d = days_before_year y + days_before_month y m + d"

definition ord2ymd :: "int \<Rightarrow> int \<times> int \<times> int" where
  "ord2ymd ordinal =
     (let n = ordinal - 1;
          n400 = n div 146097; n = n mod 146097;
          n100 = n div 36524; n = n mod 36524;
          n4 = n div 1461; n = n mod 1461;
          n1 = n div 365; n = n mod 365;
          y = n400 * 400 + 1 + n100 * 100 + n4 * 4 + n1
      in if n1 = 4 \<or> n100 = 4 then (y - 1, 12, 31)
         else let leapyear = (n1 = 3 \<and> (n4 \<noteq> 24 \<or> n100 = 3));
                  m = (n + 50) div 32;
                  preceding = days_before_month 1 m + (if 2 < m \<and> leapyear then 1 else 0)
              in if n < preceding
                 then (y, m - 1,
                       n - (preceding - (days_in_month 1 (m - 1)
                                         + (if m - 1 = 2 \<and> leapyear then 1 else 0))) + 1)
                 else (y, m, n - preceding + 1))"

definition astimezone_utc :: "pydatetime \<Rightarrow> py_error + pydatetime" where
  \<comment> \<open>\<^verbatim>\<open>dt.astimezone(timezone.utc)\<close> for an aware datetime of another time zone object:
      the offset is subtracted, OverflowError when the result leaves the years 1 to 9999.
      (On a datetime that already carries \<^verbatim>\<open>timezone.utc\<close> the call returns it as it is.)\<close>
  "astimezone_utc dt =
     (let off = (case utcoffset dt of None \<Rightarrow> 0 | Some k \<Rightarrow> k);
          t = hour dt * 3600 + minute dt * 60 + second dt - off;
          ordinal = ymd2ord (year dt) (month dt) (day dt) + t div 86400;
          r = t mod 86400
      in if ordinal < 1 \<or> 3652059 < ordinal then Inl OverflowError
         else (case ord2ymd ordinal of
                 (y, m, d) \<Rightarrow>
                   Inr \<lparr>year = y, month = m, day = d, hour = r div 3600,
                        minute = r mod 3600 div 60, second = r mod 60,
                        microsecond = microsecond dt, utcoffset = Some 0\<rparr>))"

subsection \<open>hashlib.sha256\<close>

text \<open>
  The digest the script asks \<^verbatim>\<open>hashlib\<close> for, as FIPS 180-4 defines it: bytes are
  numbers below 256, words are 32 bits wide.
\<close>

type_synonym w32 = "32 word"

definition rotr :: "nat \<Rightarrow> w32 \<Rightarrow> w32" where
  "rotr n x = drop_bit n x OR push_bit (32 - n) x"

definition ch :: "w32 \<Rightarrow> w32 \<Rightarrow> w32 \<Rightarrow> w32" where
  "ch x y z = (x AND y) XOR (NOT x AND z)"

definition maj :: "w32 \<Rightarrow> w32 \<Rightarrow> w32 \<Rightarrow> w32" where
  "maj x y z = (x AND y) XOR (x AND z) XOR (y AND z)"

definition bsig0 :: "w32 \<Rightarrow> w32" where
  "bsig0 x = rotr 2 x XOR rotr 13 x XOR rotr 22 x"

definition bsig1 :: "w32 \<Rightarrow> w32" where
  "bsig1 x = rotr 6 x XOR rotr 11 x XOR rotr 25 x"

definition ssig0 :: "w32 \<Rightarrow> w32" where
  "ssig0 x = rotr 7 x XOR rotr 18 x XOR drop_bit 3 x"

definition ssig1 :: "w32 \<Rightarrow> w32" where
  "ssig1 x = rotr 17 x XOR rotr 19 x XOR drop_bit 10 x"

definition sha256_k :: "w32 list" where
  "sha256_k =
    [0x428a2f98, 0x71374491, 0xb5c0fbcf, 0xe9b5dba5, 0x3956c25b, 0x59f111f1, 0x923f82a4, 0xab1c5ed5,
     0xd807aa98, 0x12835b01, 0x243185be, 0x550c7dc3, 0x72be5d74, 0x80deb1fe, 0x9bdc06a7, 0xc19bf174,
     0xe49b69c1, 0xefbe4786, 0x0fc19dc6, 0x240ca1cc, 0x2de92c6f, 0x4a7484aa, 0x5cb0a9dc, 0x76f988da,
     0x983e5152, 0xa831c66d, 0xb00327c8, 0xbf597fc7, 0xc6e00bf3, 0xd5a79147, 0x06ca6351, 0x14292967,
     0x27b70a85, 0x2e1b2138, 0x4d2c6dfc, 0x53380d13, 0x650a7354, 0x766a0abb, 0x81c2c92e, 0x92722c85,
     0xa2bfe8a1, 0xa81a664b, 0xc24b8b70, 0xc76c51a3, 0xd192e819, 0xd6990624, 0xf40e3585, 0x106aa070,
     0x19a4c116, 0x1e376c08, 0x2748774c, 0x34b0bcb5, 0x391c0cb3, 0x4ed8aa4a, 0x5b9cca4f, 0x682e6ff3,
     0x748f82ee, 0x78a5636f, 0x84c87814, 0x8cc70208, 0x90befffa, 0xa4506ceb, 0xbef9a3f7, 0xc67178f2]"

definition sha256_h0 :: "w32 list" where
  "sha256_h0 =
    [0x6a09e667, 0xbb67ae85, 0x3c6ef372, 0xa54ff53a, 0x510e527f, 0x9b05688c, 0x1f83d9ab, 0x5be0cd19]"

definition sha256_pad :: "nat list \<Rightarrow> nat list" where
  "sha256_pad bs =
     (let l = length bs;
          zeros = (119 - l mod 64) mod 64
      in bs @ [128] @ replicate zeros 0
         @ map (\<lambda>i. nat ((8 * int l) div 256 ^ (7 - i) mod 256)) [0..<8])"

fun be_words :: "nat list \<Rightarrow> w32 list" where
  "be_words (a # b # c # d # rest) =
     (((of_nat a * 256 + of_nat b) * 256 + of_nat c) * 256 + of_nat d) # be_words rest"
| "be_words _ = []"

fun blocks :: "nat \<Rightarrow> 'a list \<Rightarrow> 'a list list" where
  "blocks 0 xs = []"
| "blocks (Suc n) xs = take 16 xs # blocks n (drop 16 xs)"

fun extend :: "nat \<Rightarrow> w32 list \<Rightarrow> w32 list" where
  "extend 0 w = w"
| "extend (Suc n) w =
     (let t = length w
      in extend n (w @ [ssig1 (w ! (t - 2)) + w ! (t - 7) + ssig0 (w ! (t - 15)) + w ! (t - 16)]))"

fun sha256_round :: "w32 \<times> w32 \<Rightarrow> w32 list \<Rightarrow> w32 list" where
  "sha256_round (k, w) [a, b, c, d, e, f, g, h] =
     (let t1 = h + bsig1 e + ch e f g + k + w;
          t2 = bsig0 a + maj a b c
      in [t1 + t2, a, b, c, d + t1, e, f, g])"
| "sha256_round _ s = s"

definition compress :: "w32 list \<Rightarrow> w32 list \<Rightarrow> w32 list" where
  "compress block h = map2 (+) h (fold sha256_round (zip sha256_k (extend 48 block)) h)"

definition hex_char :: "nat \<Rightarrow> char" where
  "hex_char n = (if n < 10 then char_of (48 + n) else char_of (87 + n))"

definition hex8 :: "w32 \<Rightarrow> string" where
  "hex8 w = map (\<lambda>i. hex_char (unat (drop_bit (4 * (7 - i)) w AND 15))) [0..<8]"

definition sha256_hexdigest :: "nat list \<Rightarrow> string" where
  "sha256_hexdigest bs =
     (let p = be_words (sha256_pad bs)
      in concat (map hex8 (fold compress (blocks (length p div 16) p) sha256_h0)))"

section \<open>The feed and the libraries around the script\<close>

text \<open>
  An entry of the parsed feed, read through \<^verbatim>\<open>entry.get(key)\<close>: a field is \<^term>\<open>None\<close>
  when the key is missing. The textual fields are strings, the parsed dates are time
  tuples, the duration is a string or an integer, as the feed parser delivers them.
\<close>

record enclosure =
  get_url :: "string option"

datatype duration_raw = DInt int | DStr string

record entry =
  get_id :: "string option"
  get_guid :: "string option"
  get_title :: "string option"
  get_summary :: "string option"
  get_description :: "string option"
  get_link :: "string option"
  get_published :: "string option"
  get_updated :: "string option"
  get_published_parsed :: "int list option"
  get_updated_parsed :: "int list option"
  get_itunes_duration :: "duration_raw option"
  get_enclosures :: "enclosure list option"

record feed =
  feed_title :: "string option"
  entries :: "entry list"

record response =
  raise_for_status :: "py_error option"
  content :: string

record episode =
  episode_id :: string
  title :: string
  description :: string
  published :: "string option"
  link :: "string option"
  audio_url :: "string option"
  duration :: "int option"

record podcast_meta =
  podcast_title :: string
  source_rss :: string
  generated_at :: string

record payload =
  podcast :: podcast_meta
  episodes :: "episode list"

record args =
  rss_url :: string
  out :: string
  limit :: "int option"

text \<open>
  What the script calls and does not define: the third-party libraries, parts of the
  standard library whose result depends on the interpreter's version, the clock and the
  operating system. The world \<^typ>\<open>'w\<close> is the file system and the standard output.
  \<^item> \<open>int_max_str_digits\<close>: \<^verbatim>\<open>sys.get_int_max_str_digits()\<close>, 0 for no limit;
  \<^item> \<open>requests_get\<close>: \<^verbatim>\<open>requests.get(url, timeout=30)\<close>;
  \<^item> \<open>feedparser_parse\<close>: \<^verbatim>\<open>feedparser.parse(content)\<close>;
  \<^item> \<open>date_parser_parse\<close>: \<^verbatim>\<open>dateutil.parser.parse(raw)\<close>;
  \<^item> \<open>soup_get_text\<close>: \<^verbatim>\<open>BeautifulSoup(value, "html.parser").get_text(" ", strip=True)\<close>;
  \<^item> \<open>html_unescape\<close>: \<^verbatim>\<open>html.unescape(text)\<close>;
  \<^item> \<open>fromisoformat_timestamp\<close>: \<^verbatim>\<open>datetime.fromisoformat(s).timestamp()\<close>, a float;
  \<^item> \<open>utc_now\<close>: \<^verbatim>\<open>datetime.now(timezone.utc)\<close>;
  \<^item> \<open>os_path_dirname\<close>, \<open>os_makedirs\<close>: \<^verbatim>\<open>os.path.dirname\<close>, \<^verbatim>\<open>os.makedirs(d, exist_ok=True)\<close>;
  \<^item> \<open>write_json\<close>: the \<^verbatim>\<open>with open(out_path, "w")\<close> block, which dumps the payload
    as JSON and a newline into the file;
  \<^item> \<open>print_line\<close>: \<^verbatim>\<open>print\<close>.
\<close>

record 'w env =
  int_max_str_digits :: nat
  requests_get :: "string \<Rightarrow> py_error + response"
  feedparser_parse :: "string \<Rightarrow> feed"
  date_parser_parse :: "string \<Rightarrow> py_error + pydatetime"
  soup_get_text :: "string \<Rightarrow> py_error + string"
  html_unescape :: "string \<Rightarrow> string"
  fromisoformat_timestamp :: "string \<Rightarrow> py_error + real"
  utc_now :: pydatetime
  os_path_dirname :: "string \<Rightarrow> string"
  os_makedirs :: "string \<Rightarrow> 'w \<Rightarrow> py_error option \<times> 'w"
  write_json :: "string \<Rightarrow> payload \<Rightarrow> 'w \<Rightarrow> py_error option \<times> 'w"
  print_line :: "string \<Rightarrow> 'w \<Rightarrow> py_error option \<times> 'w"

section \<open>The entry normalizer\<close>

definition iso_z :: "pydatetime \<Rightarrow> string" where
  \<comment> \<open>\<^verbatim>\<open>dt.isoformat().replace("+00:00", "Z")\<close>\<close>
  "iso_z dt = py_replace ''+00:00'' ''Z'' (isoformat dt)"

definition iso_utc_now :: "'w env \<Rightarrow> string" where
  "iso_utc_now L = iso_z (utc_now L)"

definition caught :: "py_error \<Rightarrow> bool" where
  \<comment> \<open>\<^verbatim>\<open>except (ValueError, TypeError)\<close>\<close>
  "caught e = (e = ValueError \<or> e = TypeError)"

definition to_iso_datetime :: "'w env \<Rightarrow> entry \<Rightarrow> py_error + string option" where
  "to_iso_datetime L entry =
     (if truthy (get_published_parsed entry) then
        (case datetime_utc (take 6 (the (get_published_parsed entry))) of
           Inl e \<Rightarrow> Inl e
         | Inr dt \<Rightarrow> Inr (Some (iso_z dt)))
      else if truthy (get_updated_parsed entry) then
        (case datetime_utc (take 6 (the (get_updated_parsed entry))) of
           Inl e \<Rightarrow> Inl e
         | Inr dt \<Rightarrow> Inr (Some (iso_z dt)))
      else
        (case py_or (get_published entry) (get_updated entry) of
           None \<Rightarrow> Inr None
         | Some raw \<Rightarrow>
             if raw = [] then Inr None
             else
               (case date_parser_parse L raw of
                  Inl e \<Rightarrow> if caught e then Inr None else Inl e
                | Inr dt \<Rightarrow>
                    (case utcoffset dt of
                       None \<Rightarrow> Inr (Some (iso_z (dt\<lparr>utcoffset := Some 0\<rparr>)))
                     | Some off \<Rightarrow>
                         (case astimezone_utc dt of
                            Inl e \<Rightarrow> if caught e then Inr None else Inl e
                          | Inr u \<Rightarrow> Inr (Some (iso_z u)))))))"

definition strip_html :: "'w env \<Rightarrow> string option \<Rightarrow> py_error + string" where
  "strip_html L v =
     (case v of
        None \<Rightarrow> Inr []
      | Some s \<Rightarrow>
          if s = [] then Inr []
          else (case soup_get_text L s of
                  Inl e \<Rightarrow> Inl e
                | Inr text \<Rightarrow> Inr (html_unescape L text)))"

definition parse_duration :: "'w env \<Rightarrow> duration_raw option \<Rightarrow> py_error + int option" where
  "parse_duration L v =
     (case v of
        None \<Rightarrow> Inr None
      | Some (DInt n) \<Rightarrow> Inr (Some n)
      | Some (DStr s) \<Rightarrow>
          (let s = py_strip s
           in if s = [] then Inr None
              else if py_isdigit s then
                (case py_int (int_max_str_digits L) s of
                   Inl e \<Rightarrow> Inl e
                 | Inr n \<Rightarrow> Inr (Some n))
              else
                (let parts = filter py_isdigit (py_split (CHR '':'') s)
                 in if parts = [] then Inr None
                    else
                      (case sequence_sum (map (py_int (int_max_str_digits L)) parts) of
                         Inl e \<Rightarrow> if e = ValueError then Inr None else Inl e
                       | Inr [minutes, seconds] \<Rightarrow> Inr (Some (minutes * 60 + seconds))
                       | Inr [hours, minutes, seconds] \<Rightarrow>
                           Inr (Some (hours * 3600 + minutes * 60 + seconds))
                       | Inr _ \<Rightarrow> Inr None))))"

definition build_episode_id :: "entry \<Rightarrow> string option \<Rightarrow> string option \<Rightarrow> string" where
  "build_episode_id entry audio pub =
     (let guid = py_or (get_id entry) (get_guid entry)
      in if truthy guid then the guid
         else
           (let t = (case get_title entry of None \<Rightarrow> [] | Some t \<Rightarrow> t);
                base = t @ ''|'' @ or_empty pub @ ''|'' @ or_empty audio
            in sha256_hexdigest (encode_utf8 base)))"

fun first_url :: "enclosure list \<Rightarrow> string option" where
  "first_url [] = None"
| "first_url (enclosure # rest) =
     (if truthy (get_url enclosure) then get_url enclosure else first_url rest)"

definition extract_audio_url :: "entry \<Rightarrow> string option" where
  "extract_audio_url entry =
     first_url (case get_enclosures entry of None \<Rightarrow> [] | Some es \<Rightarrow> es)"

definition normalize_entry :: "'w env \<Rightarrow> entry \<Rightarrow> py_error + episode" where
  "normalize_entry L entry =
     (case to_iso_datetime L entry of
        Inl e \<Rightarrow> Inl e
      | Inr pub \<Rightarrow>
          (let audio = extract_audio_url entry
           in case strip_html L (py_or (py_or (get_summary entry) (get_description entry))
                                      (Some [])) of
                Inl e \<Rightarrow> Inl e
              | Inr desc \<Rightarrow>
                  (case parse_duration L (get_itunes_duration entry) of
                     Inl e \<Rightarrow> Inl e
                   | Inr dur \<Rightarrow>
                       Inr \<lparr>episode_id = build_episode_id entry audio pub,
                            title = py_strip (or_empty (get_title entry)),
                            description = desc,
                            published = pub,
                            link = get_link entry,
                            audio_url = audio,
                            duration = dur\<rparr>)))"

section \<open>The collection builder and the run\<close>

definition fetch_feed :: "'w env \<Rightarrow> string \<Rightarrow> py_error + feed" where
  "fetch_feed L url =
     (case requests_get L url of
        Inl e \<Rightarrow> Inl e
      | Inr response \<Rightarrow>
          (case raise_for_status response of
             Some e \<Rightarrow> Inl e
           | None \<Rightarrow> Inr (feedparser_parse L (content response))))"

definition py_slice_to :: "'a list \<Rightarrow> int \<Rightarrow> 'a list" where
  \<comment> \<open>\<^verbatim>\<open>xs[:n]\<close>\<close>
  "py_slice_to xs n =
     (if 0 \<le> n then take (nat n) xs else take (length xs - nat (- n)) xs)"

definition sort_key_item :: "'w env \<Rightarrow> episode \<Rightarrow> py_error + real" where
  \<comment> \<open>the local function \<^verbatim>\<open>sort_key\<close> of \<^verbatim>\<open>main\<close>\<close>
  "sort_key_item L item =
     (case published item of
        None \<Rightarrow> Inr 0
      | Some p \<Rightarrow>
          if p = [] then Inr 0
          else (case fromisoformat_timestamp L (py_replace ''Z'' ''+00:00'' p) of
                  Inl e \<Rightarrow> if e = ValueError then Inr 0 else Inl e
                | Inr t \<Rightarrow> Inr t))"

definition list_sort_reverse :: "('a \<Rightarrow> py_error + real) \<Rightarrow> 'a list \<Rightarrow> py_error + 'a list" where
  \<comment> \<open>\<^verbatim>\<open>xs.sort(key=key, reverse=True)\<close>: the keys are computed first; the list is
      reversed, sorted by a stable ascending sort, and reversed again.\<close>
  "list_sort_reverse key xs =
     (case sequence_sum (map key xs) of
        Inl e \<Rightarrow> Inl e
      | Inr ks \<Rightarrow> Inr (map snd (rev (sort_key fst (rev (zip ks xs))))))"

definition build_episodes :: "'w env \<Rightarrow> int option \<Rightarrow> entry list \<Rightarrow> py_error + episode list" where
  \<comment> \<open>lines 146 to 162 of \<^verbatim>\<open>main\<close>\<close>
  "build_episodes L max_n es =
     (case sequence_sum (map (normalize_entry L) es) of
        Inl e \<Rightarrow> Inl e
      | Inr eps \<Rightarrow>
          (let eps = (case max_n of None \<Rightarrow> eps | Some n \<Rightarrow> py_slice_to eps n);
               eps = filter (\<lambda>episode. title episode \<noteq> []) eps
           in list_sort_reverse (sort_key_item L) eps))"

fun str_nat :: "nat \<Rightarrow> string" where
  "str_nat n =
     (if n < 10 then [digit_char (int n)] else str_nat (n div 10) @ [digit_char (int n)])"

declare str_nat.simps [simp del]

definition main :: "'w env \<Rightarrow> args \<Rightarrow> 'w \<Rightarrow> py_error option \<times> 'w" where
  \<comment> \<open>The exception that ends the run, if any, and the world the run leaves.\<close>
  "main L a w =
     (case fetch_feed L (rss_url a) of
        Inl e \<Rightarrow> (Some e, w)
      | Inr fd \<Rightarrow>
          (let ptitle = (if truthy (feed_title fd) then the (feed_title fd) else ''Podcast'')
           in case build_episodes L (limit a) (entries fd) of
                Inl e \<Rightarrow> (Some e, w)
              | Inr eps \<Rightarrow>
                  (let pl = \<lparr>podcast = \<lparr>podcast_title = ptitle, source_rss = rss_url a,
                                          generated_at = iso_utc_now L\<rparr>,
                            episodes = eps\<rparr>;
                       out_path = out a;
                       out_dir = os_path_dirname L out_path
                   in case (if out_dir \<noteq> [] then os_makedirs L out_dir w else (None, w)) of
                        (Some e, w1) \<Rightarrow> (Some e, w1)
                      | (None, w1) \<Rightarrow>
                          (case write_json L out_path pl w1 of
                             (Some e, w2) \<Rightarrow> (Some e, w2)
                           | (None, w2) \<Rightarrow>
                               print_line L (''Wrote '' @ str_nat (length eps)
                                             @ '' episodes to '' @ out_path) w2))))"

definition exit_status :: "py_error option \<times> 'w \<Rightarrow> nat" where
  \<comment> \<open>An uncaught exception ends the interpreter with status 1.\<close>
  "exit_status r = (case fst r of None \<Rightarrow> 0 | Some e \<Rightarrow> 1)"

section \<open>One environment, for evaluating the model\<close>

subsection \<open>The HTML libraries\<close>

text \<open>
  Modelled from the spec: the HTML parser and the entity decoder are third-party and
  standard-library code that is not part of the repository. The spec's words are: parse as
  HTML, extract the visible text only (tags removed, their text content joined with single
  spaces, leading and trailing whitespace trimmed), then decode HTML entities; malformed
  HTML degrades to best-effort text extraction and never raises.

  Markup, in HTML's syntax, is
  \<^item> a comment, from \<open><!--\<close> to the next \<open>-->\<close>, or to the end of the input;
  \<^item> a declaration or processing instruction, from \<open><!\<close> or \<open><?\<close> to the next \<open>>\<close>;
  \<^item> a tag, from \<open><\<close> and a letter (or \<open></\<close> and a letter) to the next \<open>>\<close> that is not
    inside a quoted attribute value;
  \<^item> a \<open>script\<close> or \<open>style\<close> element, from its start tag to its end tag, or to the end
    of the input: its content is not visible text.

  Every other character is text; so is a \<open><\<close> that opens none of these, and one whose
  tag or declaration is never closed. The text nodes are the stretches of text between
  markup, with their character references decoded, as parsing HTML does it.
\<close>

definition is_alpha :: "char \<Rightarrow> bool" where
  "is_alpha c = (let n = (of_char c :: nat) in (65 \<le> n \<and> n \<le> 90) \<or> (97 \<le> n \<and> n \<le> 122))"


definition html_space :: "char \<Rightarrow> bool" where
  "html_space c =
     (let n = (of_char c :: nat) in n = 9 \<or> n = 10 \<or> n = 12 \<or> n = 13 \<or> n = 32)"

definition lower :: "char \<Rightarrow> char" where
  "lower c = (let n = (of_char c :: nat) in if 65 \<le> n \<and> n \<le> 90 then char_of (n + 32) else c)"

datatype tag_state = Plain | AfterEq | Quoted char

fun tag_end :: "tag_state \<Rightarrow> string \<Rightarrow> nat option" where
  \<comment> \<open>Modelled from the spec: the number of characters up to and with the \<open>>\<close> that
      closes a tag; a quote opens an attribute value only after \<open>=\<close>.\<close>
  "tag_end st [] = None"
| "tag_end st (c # cs) =
     (case st of
        Quoted q \<Rightarrow> map_option Suc (tag_end (if c = q then Plain else Quoted q) cs)
      | _ \<Rightarrow>
          if c = CHR ''>'' then Some 1
          else map_option Suc
                 (tag_end (if c = CHR ''='' then AfterEq
                           else if st = AfterEq \<and> (c = CHR 0x22 \<or> c = CHR 0x27) then Quoted c
                           else if st = AfterEq \<and> html_space c then AfterEq
                           else Plain) cs))"

fun upto_char :: "char \<Rightarrow> string \<Rightarrow> nat option" where
  "upto_char x [] = None"
| "upto_char x (c # cs) = (if c = x then Some 1 else map_option Suc (upto_char x cs))"

fun until_after :: "string \<Rightarrow> string \<Rightarrow> nat" where
  \<comment> \<open>the number of characters up to and with the first \<open>pat\<close>, or all of them\<close>
  "until_after pat [] = 0"
| "until_after pat (c # cs) =
     (if take (length pat) (c # cs) = pat then length pat else Suc (until_after pat cs))"

definition opens_tag :: "string \<Rightarrow> bool" where
  "opens_tag s =
     (case s of
        a # b # rest \<Rightarrow>
          a = CHR ''<''
          \<and> (is_alpha b \<or> (b = CHR ''/'' \<and> (case rest of c # etc \<Rightarrow> is_alpha c | [] \<Rightarrow> False)))
      | _ \<Rightarrow> False)"

definition tag_name :: "string \<Rightarrow> string" where
  \<comment> \<open>the name of a start tag, in lower case, from the text after its \<open><\<close>\<close>
  "tag_name s =
     map lower (takeWhile (\<lambda>c. \<not> html_space c \<and> c \<noteq> CHR ''/'' \<and> c \<noteq> CHR ''>'') s)"

definition closes :: "string \<Rightarrow> string \<Rightarrow> bool" where
  \<comment> \<open>the end tag of the element \<open>name\<close> starts here\<close>
  "closes name s =
     (map lower (take (2 + length name) s) = ''</'' @ name
      \<and> (case drop (2 + length name) s of
            [] \<Rightarrow> False
          | d # etc \<Rightarrow> d = CHR ''>'' \<or> d = CHR ''/'' \<or> html_space d))"

fun raw_length :: "string \<Rightarrow> string \<Rightarrow> nat" where
  \<comment> \<open>the content of a \<open>script\<close> or \<open>style\<close> element with its end tag\<close>
  "raw_length name [] = 0"
| "raw_length name (c # cs) =
     (if closes name (c # cs)
      then (case upto_char (CHR ''>'') (c # cs) of None \<Rightarrow> length (c # cs) | Some n \<Rightarrow> n)
      else Suc (raw_length name cs))"

definition markup_length :: "string \<Rightarrow> nat" where
  \<comment> \<open>Modelled from the spec: the length of the markup that starts here, 0 when what
      starts here is text.\<close>
  "markup_length s =
     (if take 4 s = ''<!--'' then 2 + until_after ''-->'' (drop 2 s)
      else if take 2 s = ''<!'' \<or> take 2 s = ''<?'' then
        (case upto_char (CHR ''>'') (drop 2 s) of None \<Rightarrow> 0 | Some n \<Rightarrow> 2 + n)
      else if opens_tag s then
        (case tag_end Plain (tl s) of
           None \<Rightarrow> 0
         | Some n \<Rightarrow>
             if tag_name (tl s) = ''script'' \<or> tag_name (tl s) = ''style''
             then 1 + n + raw_length (tag_name (tl s)) (drop (1 + n) s)
             else 1 + n)
      else 0)"

fun text_nodes :: "nat \<Rightarrow> string \<Rightarrow> string \<Rightarrow> string list" where
  \<comment> \<open>Modelled from the spec: the text nodes of the input; \<open>k\<close> characters of markup are
      still to be passed over, \<open>cur\<close> is the text node read so far, reversed.\<close>
  "text_nodes k cur [] = [rev cur]"
| "text_nodes k cur (c # cs) =
     (if 0 < k then text_nodes (k - 1) cur cs
      else if 0 < markup_length (c # cs)
           then rev cur # text_nodes (markup_length (c # cs) - 1) [] cs
           else text_nodes 0 (c # cur) cs)"

fun join_with :: "string \<Rightarrow> string list \<Rightarrow> string" where
  "join_with sep [] = []"
| "join_with sep [x] = x"
| "join_with sep (x # y # ys) = x @ sep @ join_with sep (y # ys)"

definition visible_text :: "string list \<Rightarrow> string" where
  \<comment> \<open>Modelled from the spec: the text nodes, each trimmed, the empty ones left out,
      joined with single spaces.\<close>
  "visible_text nodes = join_with '' '' (filter (\<lambda>t. t \<noteq> []) (map py_strip nodes))"

text \<open>
  Modelled from the spec: an HTML entity is a character reference, by name (\<open>&amp;\<close>) or by
  number (\<open>&#38;\<close>, \<open>&#x26;\<close>). The decoder follows HTML's rules, as the standard library's
  decoder applies them:
  \<^item> a numeric reference is \<open>&#\<close> and decimal digits, or \<open>&#x\<close> and hexadecimal digits, and
    a semicolon when one follows; the numbers that HTML forbids decode to nothing;
  \<^item> a named reference is \<open>&\<close>, up to 32 characters other than tab, line feed, form feed,
    space, \<open><\<close>, \<open>&\<close>, \<open>#\<close> and \<open>;\<close>, and a semicolon when one follows. A name of the
    table is decoded when the semicolon is there; the names of \<open>legacy_names\<close> are decoded
    without it too, and also as the longest such name that a longer name starts with;
  \<^item> what is no such reference stays as it is.

  A string of the model holds the characters below 256, so \<open>entity_table\<close> has the 159
  names of HTML that stand for such characters; a reference to any other character, by
  number or by name, stays as it is written. \<open>beyond_names\<close> are the names of such other
  characters that start with a name of \<open>legacy_names\<close>.
\<close>

definition entity_table :: "(string \<times> string) list" where
  "entity_table =
    [(''Tab'', [CHR 0x09]), (''NewLine'', [CHR 0x0A]), (''excl'', [CHR 0x21]),
     (''QUOT'', [CHR 0x22]), (''quot'', [CHR 0x22]), (''num'', [CHR 0x23]),
     (''dollar'', [CHR 0x24]), (''percnt'', [CHR 0x25]), (''AMP'', [CHR 0x26]),
     (''amp'', [CHR 0x26]), (''apos'', [CHR 0x27]), (''lpar'', [CHR 0x28]),
     (''rpar'', [CHR 0x29]), (''ast'', [CHR 0x2A]), (''midast'', [CHR 0x2A]),
     (''plus'', [CHR 0x2B]), (''comma'', [CHR 0x2C]), (''period'', [CHR 0x2E]),
     (''sol'', [CHR 0x2F]), (''colon'', [CHR 0x3A]), (''semi'', [CHR 0x3B]),
     (''LT'', [CHR 0x3C]), (''lt'', [CHR 0x3C]), (''equals'', [CHR 0x3D]),
     (''GT'', [CHR 0x3E]), (''gt'', [CHR 0x3E]), (''quest'', [CHR 0x3F]),
     (''commat'', [CHR 0x40]), (''lbrack'', [CHR 0x5B]), (''lsqb'', [CHR 0x5B]),
     (''bsol'', [CHR 0x5C]), (''rbrack'', [CHR 0x5D]), (''rsqb'', [CHR 0x5D]),
     (''Hat'', [CHR 0x5E]), (''UnderBar'', [CHR 0x5F]), (''lowbar'', [CHR 0x5F]),
     (''DiacriticalGrave'', [CHR 0x60]), (''grave'', [CHR 0x60]),
     (''fjlig'', [CHR 0x66, CHR 0x6A]), (''lbrace'', [CHR 0x7B]), (''lcub'', [CHR 0x7B]),
     (''VerticalLine'', [CHR 0x7C]), (''verbar'', [CHR 0x7C]), (''vert'', [CHR 0x7C]),
     (''rbrace'', [CHR 0x7D]), (''rcub'', [CHR 0x7D]), (''NonBreakingSpace'', [CHR 0xA0]),
     (''nbsp'', [CHR 0xA0]), (''iexcl'', [CHR 0xA1]), (''cent'', [CHR 0xA2]),
     (''pound'', [CHR 0xA3]), (''curren'', [CHR 0xA4]), (''yen'', [CHR 0xA5]),
     (''brvbar'', [CHR 0xA6]), (''sect'', [CHR 0xA7]), (''Dot'', [CHR 0xA8]),
     (''DoubleDot'', [CHR 0xA8]), (''die'', [CHR 0xA8]), (''uml'', [CHR 0xA8]),
     (''COPY'', [CHR 0xA9]), (''copy'', [CHR 0xA9]), (''ordf'', [CHR 0xAA]),
     (''laquo'', [CHR 0xAB]), (''not'', [CHR 0xAC]), (''shy'', [CHR 0xAD]),
     (''REG'', [CHR 0xAE]), (''circledR'', [CHR 0xAE]), (''reg'', [CHR 0xAE]),
     (''macr'', [CHR 0xAF]), (''strns'', [CHR 0xAF]), (''deg'', [CHR 0xB0]),
     (''PlusMinus'', [CHR 0xB1]), (''plusmn'', [CHR 0xB1]), (''pm'', [CHR 0xB1]),
     (''sup2'', [CHR 0xB2]), (''sup3'', [CHR 0xB3]), (''DiacriticalAcute'', [CHR 0xB4]),
     (''acute'', [CHR 0xB4]), (''micro'', [CHR 0xB5]), (''para'', [CHR 0xB6]),
     (''CenterDot'', [CHR 0xB7]), (''centerdot'', [CHR 0xB7]), (''middot'', [CHR 0xB7]),
     (''Cedilla'', [CHR 0xB8]), (''cedil'', [CHR 0xB8]), (''sup1'', [CHR 0xB9]),
     (''ordm'', [CHR 0xBA]), (''raquo'', [CHR 0xBB]), (''frac14'', [CHR 0xBC]),
     (''frac12'', [CHR 0xBD]), (''half'', [CHR 0xBD]), (''frac34'', [CHR 0xBE]),
     (''iquest'', [CHR 0xBF]), (''Agrave'', [CHR 0xC0]), (''Aacute'', [CHR 0xC1]),
     (''Acirc'', [CHR 0xC2]), (''Atilde'', [CHR 0xC3]), (''Auml'', [CHR 0xC4]),
     (''Aring'', [CHR 0xC5]), (''angst'', [CHR 0xC5]), (''AElig'', [CHR 0xC6]),
     (''Ccedil'', [CHR 0xC7]), (''Egrave'', [CHR 0xC8]), (''Eacute'', [CHR 0xC9]),
     (''Ecirc'', [CHR 0xCA]), (''Euml'', [CHR 0xCB]), (''Igrave'', [CHR 0xCC]),
     (''Iacute'', [CHR 0xCD]), (''Icirc'', [CHR 0xCE]), (''Iuml'', [CHR 0xCF]),
     (''ETH'', [CHR 0xD0]), (''Ntilde'', [CHR 0xD1]), (''Ograve'', [CHR 0xD2]),
     (''Oacute'', [CHR 0xD3]), (''Ocirc'', [CHR 0xD4]), (''Otilde'', [CHR 0xD5]),
     (''Ouml'', [CHR 0xD6]), (''times'', [CHR 0xD7]), (''Oslash'', [CHR 0xD8]),
     (''Ugrave'', [CHR 0xD9]), (''Uacute'', [CHR 0xDA]), (''Ucirc'', [CHR 0xDB]),
     (''Uuml'', [CHR 0xDC]), (''Yacute'', [CHR 0xDD]), (''THORN'', [CHR 0xDE]),
     (''szlig'', [CHR 0xDF]), (''agrave'', [CHR 0xE0]), (''aacute'', [CHR 0xE1]),
     (''acirc'', [CHR 0xE2]), (''atilde'', [CHR 0xE3]), (''auml'', [CHR 0xE4]),
     (''aring'', [CHR 0xE5]), (''aelig'', [CHR 0xE6]), (''ccedil'', [CHR 0xE7]),
     (''egrave'', [CHR 0xE8]), (''eacute'', [CHR 0xE9]), (''ecirc'', [CHR 0xEA]),
     (''euml'', [CHR 0xEB]), (''igrave'', [CHR 0xEC]), (''iacute'', [CHR 0xED]),
     (''icirc'', [CHR 0xEE]), (''iuml'', [CHR 0xEF]), (''eth'', [CHR 0xF0]),
     (''ntilde'', [CHR 0xF1]), (''ograve'', [CHR 0xF2]), (''oacute'', [CHR 0xF3]),
     (''ocirc'', [CHR 0xF4]), (''otilde'', [CHR 0xF5]), (''ouml'', [CHR 0xF6]),
     (''div'', [CHR 0xF7]), (''divide'', [CHR 0xF7]), (''oslash'', [CHR 0xF8]),
     (''ugrave'', [CHR 0xF9]), (''uacute'', [CHR 0xFA]), (''ucirc'', [CHR 0xFB]),
     (''uuml'', [CHR 0xFC]), (''yacute'', [CHR 0xFD]), (''thorn'', [CHR 0xFE]),
     (''yuml'', [CHR 0xFF])]"

definition legacy_names :: "string list" where
  "legacy_names =
    [''AElig'', ''AMP'', ''Aacute'', ''Acirc'', ''Agrave'', ''Aring'', ''Atilde'', ''Auml'',
     ''COPY'', ''Ccedil'', ''ETH'', ''Eacute'', ''Ecirc'', ''Egrave'', ''Euml'', ''GT'',
     ''Iacute'', ''Icirc'', ''Igrave'', ''Iuml'', ''LT'', ''Ntilde'', ''Oacute'', ''Ocirc'',
     ''Ograve'', ''Oslash'', ''Otilde'', ''Ouml'', ''QUOT'', ''REG'', ''THORN'', ''Uacute'',
     ''Ucirc'', ''Ugrave'', ''Uuml'', ''Yacute'', ''aacute'', ''acirc'', ''acute'', ''aelig'',
     ''agrave'', ''amp'', ''aring'', ''atilde'', ''auml'', ''brvbar'', ''ccedil'', ''cedil'',
     ''cent'', ''copy'', ''curren'', ''deg'', ''divide'', ''eacute'', ''ecirc'', ''egrave'',
     ''eth'', ''euml'', ''frac12'', ''frac14'', ''frac34'', ''gt'', ''iacute'', ''icirc'',
     ''iexcl'', ''igrave'', ''iquest'', ''iuml'', ''laquo'', ''lt'', ''macr'', ''micro'',
     ''middot'', ''nbsp'', ''not'', ''ntilde'', ''oacute'', ''ocirc'', ''ograve'', ''ordf'',
     ''ordm'', ''oslash'', ''otilde'', ''ouml'', ''para'', ''plusmn'', ''pound'', ''quot'',
     ''raquo'', ''reg'', ''sect'', ''shy'', ''sup1'', ''sup2'', ''sup3'', ''szlig'', ''thorn'',
     ''times'', ''uacute'', ''ucirc'', ''ugrave'', ''uml'', ''uuml'', ''yacute'', ''yen'',
     ''yuml'']"

definition beyond_names :: "string list" where
  "beyond_names =
    [''copysr'', ''divideontimes'', ''gtcc'', ''gtcir'', ''gtdot'', ''gtlPar'', ''gtquest'',
     ''gtrapprox'', ''gtrarr'', ''gtrdot'', ''gtreqless'', ''gtreqqless'', ''gtrless'',
     ''gtrsim'', ''ltcc'', ''ltcir'', ''ltdot'', ''lthree'', ''ltimes'', ''ltlarr'',
     ''ltquest'', ''ltrPar'', ''ltri'', ''ltrie'', ''ltrif'', ''notin'', ''notinE'',
     ''notindot'', ''notinva'', ''notinvb'', ''notinvc'', ''notni'', ''notniva'', ''notnivb'',
     ''notnivc'', ''parallel'', ''timesb'', ''timesbar'', ''timesd'']"

definition ref_stop :: "char \<Rightarrow> bool" where
  \<comment> \<open>the characters that are in no name\<close>
  "ref_stop c =
     (c = CHR 0x09 \<or> c = CHR 0x0A \<or> c = CHR 0x0C \<or> c = CHR '' '' \<or> c = CHR ''<''
      \<or> c = CHR ''&'' \<or> c = CHR ''#'' \<or> c = CHR '';'')"

definition is_hex :: "char \<Rightarrow> bool" where
  "is_hex c =
     (let n = (of_char c :: nat)
      in (48 \<le> n \<and> n \<le> 57) \<or> (65 \<le> n \<and> n \<le> 70) \<or> (97 \<le> n \<and> n \<le> 102))"

definition hex_val :: "char \<Rightarrow> nat" where
  "hex_val c =
     (let n = (of_char c :: nat)
      in if n \<le> 57 then n - 48 else if n \<le> 70 then n - 55 else n - 87)"

definition hex_value :: "string \<Rightarrow> int" where
  "hex_value s = foldl (\<lambda>a c. 16 * a + int (hex_val c)) 0 s"

definition numeric_text :: "int \<Rightarrow> string option" where
  \<comment> \<open>Modelled from the spec: what the reference to the number \<open>v\<close> stands for; None when
      that is a character beyond 255 (also for 0, the numbers 128 to 159 that stand for
      characters of Windows-1252, the surrogates and the numbers above 0x10FFFF). The
      forbidden numbers stand for nothing.\<close>
  "numeric_text v =
     (if v = 13 \<or> v = 129 \<or> v = 141 \<or> v = 143 \<or> v = 144 \<or> v = 157 then Some [char_of v]
      else if v = 0 \<or> (128 \<le> v \<and> v \<le> 159) \<or> (55296 \<le> v \<and> v \<le> 57343) \<or> 1114111 < v
        then None
      else if (1 \<le> v \<and> v \<le> 8) \<or> v = 11 \<or> (14 \<le> v \<and> v \<le> 31) \<or> v = 127
              \<or> (64976 \<le> v \<and> v \<le> 65007) \<or> v mod 65536 = 65534 \<or> v mod 65536 = 65535
        then Some []
      else if v < 256 then Some [char_of v]
      else None)"

definition numeric_ref :: "nat \<Rightarrow> (char \<Rightarrow> bool) \<Rightarrow> (string \<Rightarrow> int) \<Rightarrow> string \<Rightarrow> (nat \<times> string) option" where
  \<comment> \<open>the digits after a prefix of \<open>off\<close> characters, and the semicolon if there is one\<close>
  "numeric_ref off digit val s =
     (let ds = takeWhile digit s;
          semi = (take 1 (drop (length ds) s) = '';'')
      in if ds = [] then None
         else map_option (\<lambda>v. (off + length ds + (if semi then 1 else 0), v))
                (numeric_text (val ds)))"

fun legacy_prefix :: "nat \<Rightarrow> string \<Rightarrow> nat option" where
  \<comment> \<open>the length of the longest name of \<open>legacy_names\<close> that \<open>s\<close> starts with, of at most
      \<open>k\<close> and at least 2 characters\<close>
  "legacy_prefix 0 s = None"
| "legacy_prefix (Suc k) s =
     (if 1 \<le> k \<and> take (Suc k) s \<in> set legacy_names then Some (Suc k)
      else legacy_prefix k s)"

definition named_ref :: "string \<Rightarrow> (nat \<times> string) option" where
  \<comment> \<open>the name after the \<open>&\<close>: the number of characters that are replaced, and what
      replaces them\<close>
  "named_ref s =
     (let name = take 32 (takeWhile (\<lambda>c. \<not> ref_stop c) s);
          semi = (take 1 (drop (length name) s) = '';'')
      in if name = [] \<or> (semi \<and> name \<in> set beyond_names) then None
         else (case (if semi \<or> name \<in> set legacy_names then map_of entity_table name
                     else None) of
                 Some v \<Rightarrow> Some (length name + (if semi then 1 else 0), v)
               | None \<Rightarrow>
                   (case legacy_prefix (if semi then length name else length name - 1) name of
                      None \<Rightarrow> None
                    | Some n \<Rightarrow> map_option (Pair n) (map_of entity_table (take n name)))))"

definition char_ref :: "string \<Rightarrow> (nat \<times> string) option" where
  \<comment> \<open>Modelled from the spec: the character reference that starts here, as the number
      of characters that are replaced and what replaces them.\<close>
  "char_ref s =
     (case s of
        a # b # rest \<Rightarrow>
          if a \<noteq> CHR ''&'' then None
          else if b = CHR ''#'' then
            (case rest of
               x # etc \<Rightarrow>
                 if x = CHR ''x'' \<or> x = CHR ''X'' then numeric_ref 3 is_hex hex_value etc
                 else numeric_ref 2 isdecimal_char decimal_value rest
             | [] \<Rightarrow> None)
          else map_option (\<lambda>r. (1 + fst r, snd r)) (named_ref (b # rest))
      | _ \<Rightarrow> None)"

fun unescape_from :: "nat \<Rightarrow> string \<Rightarrow> string" where
  "unescape_from k [] = []"
| "unescape_from k (c # cs) =
     (if 0 < k then unescape_from (k - 1) cs
      else (case char_ref (c # cs) of
              Some (n, v) \<Rightarrow> v @ unescape_from (n - 1) cs
            | None \<Rightarrow> c # unescape_from 0 cs))"

definition spec_unescape :: "string \<Rightarrow> string" where
  \<comment> \<open>Modelled from the spec: the entity decoder, which is not in the repository.\<close>
  "spec_unescape s = unescape_from 0 s"

definition spec_get_text :: "string \<Rightarrow> py_error + string" where
  \<comment> \<open>Modelled from the spec: the text extraction of the HTML parser, which is not in
      the repository. Parsing HTML decodes the character references of the text, so a
      text node holds the characters they stand for. It never raises.\<close>
  "spec_get_text s = Inr (visible_text (map spec_unescape (text_nodes 0 [] s)))"














subsection \<open>The rest of the environment\<close>

text \<open>
  The rest of the environment: a date parser and a timestamp function that know the
  form \<^verbatim>\<open>YYYY-MM-DD HH:MM:SS\<close> (with \<^verbatim>\<open>T\<close> and \<^verbatim>\<open>+00:00\<close> for the second) and refuse
  every other string, a network with one feed, and a world that records what was written.
\<close>

record world =
  files :: "(string \<times> payload) list"
  directories :: "string list"
  stdout :: "string list"

definition field_int :: "string \<Rightarrow> nat \<Rightarrow> nat \<Rightarrow> int" where
  "field_int s i n = (case py_int 0 (take n (drop i s)) of Inl e \<Rightarrow> - 1 | Inr k \<Rightarrow> k)"

definition parse_stamp :: "char \<Rightarrow> string \<Rightarrow> py_error + pydatetime" where
  "parse_stamp sep s =
     (if length s = 19 \<and> s ! 4 = CHR ''-'' \<and> s ! 7 = CHR ''-'' \<and> s ! 10 = sep
         \<and> s ! 13 = CHR '':'' \<and> s ! 16 = CHR '':''
      then (case datetime_utc [field_int s 0 4, field_int s 5 2, field_int s 8 2,
                               field_int s 11 2, field_int s 14 2, field_int s 17 2] of
              Inl e \<Rightarrow> Inl ValueError
            | Inr dt \<Rightarrow> Inr (dt\<lparr>utcoffset := None\<rparr>))
      else Inl ValueError)"

definition example_timestamp :: "string \<Rightarrow> py_error + real" where
  "example_timestamp s =
     (if drop 19 s = ''+00:00'' then
        (case parse_stamp (CHR ''T'') (take 19 s) of
           Inl e \<Rightarrow> Inl e
         | Inr dt \<Rightarrow>
             Inr (real_of_int ((ymd2ord (year dt) (month dt) (day dt) - 719163) * 86400
                               + hour dt * 3600 + minute dt * 60 + second dt)))
      else Inl ValueError)"

definition example_dirname :: "string \<Rightarrow> string" where
  "example_dirname p = rev (drop 1 (dropWhile (\<lambda>c. c \<noteq> CHR ''/'') (rev p)))"

definition no_entry :: entry where
  "no_entry =
     \<lparr>get_id = None, get_guid = None, get_title = None, get_summary = None,
      get_description = None, get_link = None, get_published = None, get_updated = None,
      get_published_parsed = None, get_updated_parsed = None, get_itunes_duration = None,
      get_enclosures = None\<rparr>"

definition entry_untitled :: entry where
  "entry_untitled = no_entry\<lparr>get_title := Some '' '', get_id := Some ''a''\<rparr>"

definition entry_b :: entry where
  "entry_b =
     no_entry\<lparr>get_title := Some ''B'', get_id := Some ''b'',
              get_published_parsed := Some [2023, 1, 1, 0, 0, 0, 6, 1, 0]\<rparr>"

definition entry_c :: entry where
  "entry_c =
     no_entry\<lparr>get_title := Some ''C'',
              get_updated_parsed := Some [2024, 1, 1, 0, 0, 0, 0, 1, 0],
              get_summary := Some ''<p>Hi &amp; bye</p>'',
              get_itunes_duration := Some (DStr ''01:02:03''),
              get_enclosures := Some [\<lparr>get_url = None\<rparr>, \<lparr>get_url = Some ''http://x/c.mp3''\<rparr>]\<rparr>"

definition entry_d :: entry where
  "entry_d = no_entry\<lparr>get_title := Some ''D'', get_guid := Some ''d''\<rparr>"

definition entry_leap_second :: entry where
  \<comment> \<open>a time tuple with second 60, which \<^verbatim>\<open>time.struct_time\<close> allows\<close>
  "entry_leap_second =
     no_entry\<lparr>get_title := Some ''E'', get_id := Some ''e'',
              get_published_parsed := Some [2016, 12, 31, 23, 59, 60, 5, 366, 0]\<rparr>"

definition entry_superscript :: entry where
  \<comment> \<open>a duration of one character, SUPERSCRIPT TWO\<close>
  "entry_superscript =
     no_entry\<lparr>get_title := Some ''F'', get_id := Some ''f'',
              get_itunes_duration := Some (DStr [CHR 0xB2])\<rparr>"

definition example_env :: "world env" where
  "example_env =
     \<lparr>int_max_str_digits = 4300,
      requests_get =
        (\<lambda>url. if url = ''https://example.org/feed.xml''
               then Inr \<lparr>raise_for_status = None, content = ''<rss/>''\<rparr>
               else if url = ''https://example.org/gone.xml''
               then Inr \<lparr>raise_for_status = Some (OtherError ''HTTPError''), content = []\<rparr>
               else Inl (OtherError ''ConnectionError'')),
      feedparser_parse =
        (\<lambda>c. \<lparr>feed_title = None, entries = [entry_untitled, entry_b, entry_c, entry_d]\<rparr>),
      date_parser_parse = parse_stamp (CHR '' ''),
      soup_get_text = spec_get_text,
      html_unescape = spec_unescape,
      fromisoformat_timestamp = example_timestamp,
      utc_now = \<lparr>year = 2026, month = 1, day = 2, hour = 3, minute = 4, second = 5,
                 microsecond = 6, utcoffset = Some 0\<rparr>,
      os_path_dirname = example_dirname,
      os_makedirs = (\<lambda>d w. (None, w\<lparr>directories := d # directories w\<rparr>)),
      write_json = (\<lambda>p pl w. (None, w\<lparr>files := (p, pl) # files w\<rparr>)),
      print_line = (\<lambda>s w. (None, w\<lparr>stdout := stdout w @ [s]\<rparr>))\<rparr>"

definition episode_at :: "string \<Rightarrow> string option \<Rightarrow> episode" where
  "episode_at name p =
     \<lparr>episode_id = name, title = name, description = [], published = p, link = None,
      audio_url = None, duration = None\<rparr>"

definition example_args :: args where
  "example_args =
     \<lparr>rss_url = ''https://example.org/feed.xml'', out = ''resources/episodes.json'',
      limit = None\<rparr>"

definition empty_world :: world where
  "empty_world = \<lparr>files = [], directories = [], stdout = []\<rparr>"

section \<open>Properties\<close>

lemma truthy_simps:
  "truthy None = False" "truthy (Some s) = (s \<noteq> [])"
  by (simp_all add: truthy_def)

subsection \<open>The limit and the title filter\<close>

lemma py_slice_to_nonneg: "0 \<le> n \<Longrightarrow> py_slice_to xs n = take (nat n) xs"
  by (simp add: py_slice_to_def)

lemma py_slice_to_neg: "0 < k \<Longrightarrow> py_slice_to xs (- int k) = take (length xs - k) xs"
  by (simp add: py_slice_to_def)

lemma take_as_rev_drop: "take (length xs - k) xs = rev (drop k (rev xs))"
  by (simp add: drop_rev)

lemma list_sort_reverse_Nil: "list_sort_reverse key [] = Inr []"
  by (simp add: list_sort_reverse_def)

lemma build_episodes_unfold:
  assumes "sequence_sum (map (normalize_entry L) es) = Inr cands"
  shows "build_episodes L max_n es =
           list_sort_reverse (sort_key_item L)
             (filter (\<lambda>e. title e \<noteq> [])
                (case max_n of None \<Rightarrow> cands | Some n \<Rightarrow> py_slice_to cands n))"
  using assms by (simp add: build_episodes_def Let_def)

lemma build_episodes_raises:
  assumes "sequence_sum (map (normalize_entry L) es) = Inl e"
  shows "build_episodes L max_n es = Inl e"
  using assms by (simp add: build_episodes_def)

lemma example_candidates:
  "sequence_sum (map (normalize_entry example_env) [entry_untitled, entry_b]) =
     Inr [\<lparr>episode_id = ''a'', title = [], description = [], published = None,
            link = None, audio_url = None, duration = None\<rparr>,
          \<lparr>episode_id = ''b'', title = ''B'', description = [],
            published = Some ''2023-01-01T00:00:00Z'', link = None,
            audio_url = None, duration = None\<rparr>]"
  by code_simp

text \<open>
  Claim C1, as the code has it: when every entry normalizes and the configured limit \<open>n\<close>
  is not negative, the candidates (in feed order) are cut to their \<open>n\<close> leading elements
  first and the episodes with an empty title are removed after that; the result is what
  the final sort receives. For candidates with the titles \<open>""\<close> and \<open>"B"\<close> and the limit
  1 the final list is empty.
\<close>

theorem limit_then_filter:
  assumes cands: "sequence_sum (map (normalize_entry L) es) = Inr cands"
    and n: "0 \<le> n"
  shows "build_episodes L (Some n) es =
           list_sort_reverse (sort_key_item L)
             (filter (\<lambda>e. title e \<noteq> []) (take (nat n) cands))
         \<and> (map title cands = ['''', ''B''] \<longrightarrow> build_episodes L (Some 1) es = Inr [])"
proof (intro conjI impI)
  show "build_episodes L (Some n) es =
          list_sort_reverse (sort_key_item L)
            (filter (\<lambda>e. title e \<noteq> []) (take (nat n) cands))"
    using build_episodes_unfold [OF cands, of "Some n"] n
    by (simp add: py_slice_to_nonneg)
next
  assume titles: "map title cands = ['''', ''B'']"
  then obtain a b where ab: "cands = [a, b]" "title a = []"
    by (cases cands) auto
  have "filter (\<lambda>e. title e \<noteq> []) (py_slice_to cands 1) = []"
    using ab by (simp add: py_slice_to_def)
  then show "build_episodes L (Some 1) es = Inr []"
    using build_episodes_unfold [OF cands, of "Some 1"]
    by (simp add: list_sort_reverse_Nil)
qed

theorem limit_then_filter_witness:
  "build_episodes example_env (Some 1) [entry_untitled, entry_b] =
     list_sort_reverse (sort_key_item example_env)
       (filter (\<lambda>e. title e \<noteq> [])
          (take (nat 1)
             [\<lparr>episode_id = ''a'', title = [], description = [], published = None,
                link = None, audio_url = None, duration = None\<rparr>,
              \<lparr>episode_id = ''b'', title = ''B'', description = [],
                published = Some ''2023-01-01T00:00:00Z'', link = None,
                audio_url = None, duration = None\<rparr>]))
   \<and> build_episodes example_env (Some 1) [entry_untitled, entry_b] = Inr []"
proof -
  have n: "(0::int) \<le> 1" by simp
  from limit_then_filter [OF example_candidates n] show ?thesis
    by (simp add: list_sort_reverse_Nil)
qed

text \<open>
  For a negative limit the slice is not a cut to \<open>n\<close> leading elements. With the limit
  \<open>-1\<close> and the two titled entries \<open>b\<close> and \<open>d\<close> the candidates are both episodes and
  the final list is the episode of \<open>b\<close>; cutting the candidates to \<open>-1\<close> leading elements
  (no elements) would leave nothing.
\<close>

theorem negative_limit_counterexample:
  "sequence_sum (map (normalize_entry example_env) [entry_b, entry_d])
     = Inr [(episode_at ''B'' (Some ''2023-01-01T00:00:00Z''))\<lparr>episode_id := ''b''\<rparr>,
            (episode_at ''D'' None)\<lparr>episode_id := ''d''\<rparr>]
   \<and> build_episodes example_env (Some (- 1)) [entry_b, entry_d]
       = Inr [(episode_at ''B'' (Some ''2023-01-01T00:00:00Z''))\<lparr>episode_id := ''b''\<rparr>]
   \<and> list_sort_reverse (sort_key_item example_env)
         (filter (\<lambda>e. title e \<noteq> [])
            (take (nat (- 1))
               [(episode_at ''B'' (Some ''2023-01-01T00:00:00Z''))\<lparr>episode_id := ''b''\<rparr>,
                (episode_at ''D'' None)\<lparr>episode_id := ''d''\<rparr>]))
       = Inr []"
  by code_simp

lemma slice_not_fixed_count:
  assumes "0 < k"
  shows "\<not> (\<exists>m. \<forall>ys :: 'a list. py_slice_to ys (- int k) = take m ys)"
proof
  assume "\<exists>m. \<forall>ys :: 'a list. py_slice_to ys (- int k) = take m ys"
  then obtain m where m: "\<And>ys :: 'a list. py_slice_to ys (- int k) = take m ys"
    by blast
  have "length (py_slice_to (replicate (m + k + 1) (undefined :: 'a)) (- int k)) = m + 1"
    using assms by (simp add: py_slice_to_neg)
  moreover have "length (take m (replicate (m + k + 1) (undefined :: 'a))) = m"
    by simp
  ultimately show False
    using m [of "replicate (m + k + 1) undefined"] by simp
qed

text \<open>
  Claim C10: with the limit 0 the final list is empty whenever the run reaches it (an
  entry that fails to normalize ends the run before). With a negative limit \<open>-k\<close> the
  slice keeps all but the last \<open>k\<close> candidates, so the number of elements kept follows
  the length of the feed: no count \<open>m\<close> of leading elements describes it for every feed.
\<close>

theorem limit_zero_and_negative:
  "build_episodes L (Some 0) es =
     map_sum id (\<lambda>cands. []) (sequence_sum (map (normalize_entry L) es))
   \<and> (0 < k \<longrightarrow>
        py_slice_to xs (- int k) = take (length xs - k) xs
        \<and> py_slice_to xs (- int k) = rev (drop k (rev xs))
        \<and> (sequence_sum (map (normalize_entry L) es) = Inr cands \<longrightarrow>
             build_episodes L (Some (- int k)) es =
               list_sort_reverse (sort_key_item L)
                 (filter (\<lambda>e. title e \<noteq> []) (take (length cands - k) cands)))
        \<and> \<not> (\<exists>m. \<forall>ys :: episode list. py_slice_to ys (- int k) = take m ys))"
proof (intro conjI impI)
  show "build_episodes L (Some 0) es =
          map_sum id (\<lambda>cands. []) (sequence_sum (map (normalize_entry L) es))"
  proof (cases "sequence_sum (map (normalize_entry L) es)")
    case (Inl e)
    then show ?thesis by (simp add: build_episodes_raises)
  next
    case (Inr cands)
    then show ?thesis
      by (simp add: build_episodes_unfold py_slice_to_def list_sort_reverse_Nil)
  qed
next
  assume k: "0 < k"
  show "py_slice_to xs (- int k) = take (length xs - k) xs"
    using k by (rule py_slice_to_neg)
  then show "py_slice_to xs (- int k) = rev (drop k (rev xs))"
    by (simp add: take_as_rev_drop)
  show "\<not> (\<exists>m. \<forall>ys :: episode list. py_slice_to ys (- int k) = take m ys)"
    using k by (rule slice_not_fixed_count)
next
  assume k: "0 < k" and cands: "sequence_sum (map (normalize_entry L) es) = Inr cands"
  show "build_episodes L (Some (- int k)) es =
          list_sort_reverse (sort_key_item L)
            (filter (\<lambda>e. title e \<noteq> []) (take (length cands - k) cands))"
    using build_episodes_unfold [OF cands, of "Some (- int k)"] k
    by (simp add: py_slice_to_neg)
qed

theorem limit_zero_and_negative_witness:
  "build_episodes example_env (Some 0) [entry_untitled, entry_b] = Inr []
   \<and> py_slice_to [entry_untitled, entry_b, entry_d] (- int 2) = [entry_untitled]
   \<and> map_sum id (map title) (build_episodes example_env (Some (- int 1)) [entry_untitled, entry_b])
       = Inr []"
proof -
  note t = limit_zero_and_negative
             [where L = example_env and es = "[entry_untitled, entry_b]"
                and cands = "[\<lparr>episode_id = ''a'', title = [], description = [], published = None,
                                link = None, audio_url = None, duration = None\<rparr>,
                              \<lparr>episode_id = ''b'', title = ''B'', description = [],
                                published = Some ''2023-01-01T00:00:00Z'', link = None,
                                audio_url = None, duration = None\<rparr>]"]
  have a: "build_episodes example_env (Some 0) [entry_untitled, entry_b] = Inr []"
    using t [THEN conjunct1] unfolding example_candidates by simp
  have b: "py_slice_to [entry_untitled, entry_b, entry_d] (- int 2) = [entry_untitled]"
    using t [where k = 2 and xs = "[entry_untitled, entry_b, entry_d]", THEN conjunct2]
    by simp
  have c: "build_episodes example_env (Some (- int 1)) [entry_untitled, entry_b] = Inr []"
    using t [where k = 1 and xs = "[] :: nat list", THEN conjunct2] unfolding example_candidates
    by (simp add: list_sort_reverse_Nil)
  from a b c show ?thesis by simp
qed

subsection \<open>The episode id\<close>

text \<open>The digest function on a test vector of FIPS 180-4.\<close>

lemma sha256_abc:
  "sha256_hexdigest (encode_utf8 ''abc'') =
     ''ba7816bf8f01cfea414140de5dae2223b00361a396177a9cb410ff61f20015ad''"
  by code_simp

lemma or_empty_cases: "or_empty v = (case v of None \<Rightarrow> [] | Some s \<Rightarrow> s)"
  by (cases v) (auto simp: or_empty_def py_or_def truthy_def)

lemma normalize_entry_fields:
  assumes "normalize_entry L e = Inr ep"
  shows "episode_id ep = build_episode_id e (audio_url ep) (published ep)"
    and "title ep = py_strip (or_empty (get_title e))"
    and "to_iso_datetime L e = Inr (published ep)"
    and "audio_url ep = extract_audio_url e"
    and "parse_duration L (get_itunes_duration e) = Inr (duration ep)"
    and "link ep = get_link e"
  using assms
  by (auto simp: normalize_entry_def Let_def split: sum.splits)

text \<open>
  Claim C2: an entry with a non-empty \<open>id\<close> (or, failing that, a non-empty \<open>guid\<close>) gets
  that string as its episode id. An entry with neither gets the SHA-256 hex digest of the
  UTF-8 bytes of the entry's title (as the feed gives it), the normalized published
  date and the audio URL, each empty when absent, joined with \<open>|\<close>; so two entries without
  a guid and with the same title, date and URL get the same id. The id of a normalized
  episode is this function of the entry and of the episode's own date and URL.
\<close>

theorem episode_id_derivation:
  "(get_id e = Some g \<and> g \<noteq> [] \<longrightarrow> build_episode_id e a p = g)
   \<and> (\<not> truthy (get_id e) \<and> get_guid e = Some g \<and> g \<noteq> [] \<longrightarrow> build_episode_id e a p = g)
   \<and> (\<not> truthy (get_id e) \<and> \<not> truthy (get_guid e) \<longrightarrow>
        build_episode_id e a p =
          sha256_hexdigest
            (encode_utf8 ((case get_title e of None \<Rightarrow> [] | Some t \<Rightarrow> t) @ ''|''
                          @ (case p of None \<Rightarrow> [] | Some s \<Rightarrow> s) @ ''|''
                          @ (case a of None \<Rightarrow> [] | Some s \<Rightarrow> s))))
   \<and> (\<not> truthy (get_id e) \<and> \<not> truthy (get_guid e)
        \<and> \<not> truthy (get_id e') \<and> \<not> truthy (get_guid e')
        \<and> get_title e = get_title e' \<longrightarrow>
        build_episode_id e a p = build_episode_id e' a p)
   \<and> (normalize_entry L e = Inr ep \<longrightarrow>
        episode_id ep = build_episode_id e (audio_url ep) (published ep))"
proof (intro conjI impI)
  assume "get_id e = Some g \<and> g \<noteq> []"
  then show "build_episode_id e a p = g"
    by (simp add: build_episode_id_def py_or_def truthy_def)
next
  assume "\<not> truthy (get_id e) \<and> get_guid e = Some g \<and> g \<noteq> []"
  then show "build_episode_id e a p = g"
    by (simp add: build_episode_id_def py_or_def truthy_def)
next
  assume "\<not> truthy (get_id e) \<and> \<not> truthy (get_guid e)"
  then show "build_episode_id e a p =
          sha256_hexdigest
            (encode_utf8 ((case get_title e of None \<Rightarrow> [] | Some t \<Rightarrow> t) @ ''|''
                          @ (case p of None \<Rightarrow> [] | Some s \<Rightarrow> s) @ ''|''
                          @ (case a of None \<Rightarrow> [] | Some s \<Rightarrow> s)))"
    by (simp add: build_episode_id_def py_or_def or_empty_cases Let_def)
next
  assume "\<not> truthy (get_id e) \<and> \<not> truthy (get_guid e)
        \<and> \<not> truthy (get_id e') \<and> \<not> truthy (get_guid e')
        \<and> get_title e = get_title e'"
  then show "build_episode_id e a p = build_episode_id e' a p"
    by (simp add: build_episode_id_def py_or_def Let_def)
next
  assume "normalize_entry L e = Inr ep"
  then show "episode_id ep = build_episode_id e (audio_url ep) (published ep)"
    by (rule normalize_entry_fields)
qed

theorem episode_id_derivation_witness:
  "build_episode_id entry_b None None = ''b''
   \<and> build_episode_id entry_d None None = ''d''
   \<and> build_episode_id entry_c (Some ''http://x/c.mp3'') (Some ''2024-01-01T00:00:00Z'') =
       sha256_hexdigest (encode_utf8 ''C|2024-01-01T00:00:00Z|http://x/c.mp3'')
   \<and> build_episode_id entry_c None None =
       build_episode_id (entry_c\<lparr>get_link := Some ''http://x/''\<rparr>) None None"
proof -
  have b: "get_id entry_b = Some ''b''"
    and d: "\<not> truthy (get_id entry_d)" "get_guid entry_d = Some ''d''"
    and c: "\<not> truthy (get_id entry_c)" "\<not> truthy (get_guid entry_c)"
           "get_title entry_c = Some ''C''"
    by (simp_all add: entry_b_def entry_c_def entry_d_def no_entry_def truthy_def)
  have "build_episode_id entry_b None None = ''b''"
    using episode_id_derivation [of entry_b "''b''" None None, THEN conjunct1] b by simp
  moreover have "build_episode_id entry_d None None = ''d''"
    using episode_id_derivation [of entry_d "''d''" None None, THEN conjunct2, THEN conjunct1] d
    by simp
  moreover have "build_episode_id entry_c (Some ''http://x/c.mp3'') (Some ''2024-01-01T00:00:00Z'') =
       sha256_hexdigest (encode_utf8 ''C|2024-01-01T00:00:00Z|http://x/c.mp3'')"
    using episode_id_derivation
            [of entry_c _ "Some ''http://x/c.mp3''" "Some ''2024-01-01T00:00:00Z''",
             THEN conjunct2, THEN conjunct2, THEN conjunct1] c
    by simp
  moreover have "build_episode_id entry_c None None =
       build_episode_id (entry_c\<lparr>get_link := Some ''http://x/''\<rparr>) None None"
    using episode_id_derivation
            [of entry_c _ None None "entry_c\<lparr>get_link := Some ''http://x/''\<rparr>",
             THEN conjunct2, THEN conjunct2, THEN conjunct2, THEN conjunct1] c
    by simp
  ultimately show ?thesis by simp
qed

subsection \<open>A fetch that fails\<close>

lemma fetch_feed_raises_iff:
  "fetch_feed L url = Inl e \<longleftrightarrow>
     requests_get L url = Inl e
     \<or> (\<exists>r. requests_get L url = Inr r \<and> raise_for_status r = Some e)"
  by (auto simp: fetch_feed_def split: sum.splits option.splits)

lemma main_fetch_raises:
  "fetch_feed L (rss_url a) = Inl e \<Longrightarrow> main L a w = (Some e, w)"
  by (simp add: main_def)

lemma main_changes_world:
  assumes "snd (main L a w) \<noteq> w"
  shows "\<exists>fd eps. fetch_feed L (rss_url a) = Inr fd
            \<and> build_episodes L (limit a) (entries fd) = Inr eps"
proof (cases "fetch_feed L (rss_url a)")
  case (Inl e)
  then show ?thesis using assms by (simp add: main_def)
next
  case fd: (Inr fd)
  show ?thesis
  proof (cases "build_episodes L (limit a) (entries fd)")
    case (Inl e)
    then show ?thesis using assms fd by (simp add: main_def Let_def)
  next
    case (Inr eps)
    then show ?thesis using fd by simp
  qed
qed

text \<open>
  Claim C8: the fetch raises exactly when the request raises or the response's status
  check raises. Then the run ends with that exception, with a nonzero exit status and
  with the world (the files and the output) as it was, whatever the parser and the
  normalizer's libraries are: they are never reached. And a run that changes the world
  has fetched the feed and built the whole episode list before.
\<close>

theorem fetch_failure_writes_nothing:
  "(fetch_feed L (rss_url a) = Inl e \<longleftrightarrow>
      requests_get L (rss_url a) = Inl e
      \<or> (\<exists>r. requests_get L (rss_url a) = Inr r \<and> raise_for_status r = Some e))
   \<and> (fetch_feed L (rss_url a) = Inl e \<longrightarrow>
        main L a w = (Some e, w) \<and> exit_status (main L a w) \<noteq> 0
        \<and> (\<forall>L'. requests_get L' = requests_get L \<longrightarrow> main L' a w = (Some e, w)))
   \<and> (snd (main L a w) \<noteq> w \<longrightarrow>
        (\<exists>fd eps. fetch_feed L (rss_url a) = Inr fd
           \<and> build_episodes L (limit a) (entries fd) = Inr eps))"
proof (intro conjI impI allI)
  show "fetch_feed L (rss_url a) = Inl e \<longleftrightarrow>
      requests_get L (rss_url a) = Inl e
      \<or> (\<exists>r. requests_get L (rss_url a) = Inr r \<and> raise_for_status r = Some e)"
    by (rule fetch_feed_raises_iff)
next
  assume f: "fetch_feed L (rss_url a) = Inl e"
  then show m: "main L a w = (Some e, w)" by (rule main_fetch_raises)
  then show "exit_status (main L a w) \<noteq> 0" by (simp add: exit_status_def)
  fix L' :: "'a env"
  assume "requests_get L' = requests_get L"
  with f have "fetch_feed L' (rss_url a) = Inl e"
    by (simp add: fetch_feed_raises_iff)
  then show "main L' a w = (Some e, w)" by (rule main_fetch_raises)
next
  assume "snd (main L a w) \<noteq> w"
  then show "\<exists>fd eps. fetch_feed L (rss_url a) = Inr fd
           \<and> build_episodes L (limit a) (entries fd) = Inr eps"
    by (rule main_changes_world)
qed

theorem fetch_failure_writes_nothing_witness:
  "fetch_feed example_env ''https://example.org/gone.xml'' = Inl (OtherError ''HTTPError'')
   \<and> main example_env (example_args\<lparr>rss_url := ''https://example.org/gone.xml''\<rparr>) empty_world
       = (Some (OtherError ''HTTPError''), empty_world)
   \<and> main example_env (example_args\<lparr>rss_url := ''https://example.org/down.xml''\<rparr>) empty_world
       = (Some (OtherError ''ConnectionError''), empty_world)"
proof -
  have g: "fetch_feed example_env (rss_url (example_args\<lparr>rss_url := ''https://example.org/gone.xml''\<rparr>))
             = Inl (OtherError ''HTTPError'')"
    and d: "fetch_feed example_env (rss_url (example_args\<lparr>rss_url := ''https://example.org/down.xml''\<rparr>))
             = Inl (OtherError ''ConnectionError'')"
    by (simp_all add: fetch_feed_def example_env_def)
  from fetch_failure_writes_nothing
         [of example_env "example_args\<lparr>rss_url := ''https://example.org/gone.xml''\<rparr>"
             "OtherError ''HTTPError''" empty_world]
       fetch_failure_writes_nothing
         [of example_env "example_args\<lparr>rss_url := ''https://example.org/down.xml''\<rparr>"
             "OtherError ''ConnectionError''" empty_world]
       g d
  show ?thesis by simp
qed

subsection \<open>HTML stripping\<close>




























































subsection \<open>The final order\<close>

lemma sequence_sum_Inr_iff: "sequence_sum zs = Inr ys \<longleftrightarrow> zs = map Inr ys"
proof (induction zs arbitrary: ys)
  case Nil
  show ?case by auto
next
  case (Cons z zs)
  show ?case
  proof (cases z)
    case (Inl e)
    then show ?thesis by (cases ys) auto
  next
    case (Inr v)
    then show ?thesis
      using Cons.IH by (cases ys; cases "sequence_sum zs") auto
  qed
qed














subsection \<open>Date normalization\<close>

lemma of_char_digit_char: "of_char (digit_char n) = 48 + nat (n mod 10)"
proof -
  have "nat (n mod 10) < 10" by simp
  then have "(48 + nat (n mod 10)) mod 256 = 48 + nat (n mod 10)" by simp
  then show ?thesis by (simp add: digit_char_def)
qed

lemma digit_char_not_plus: "digit_char n \<noteq> CHR ''+''"
proof
  assume "digit_char n = CHR ''+''"
  then have "(of_char (digit_char n) :: nat) = of_char CHR ''+''" by simp
  then show False by (simp add: of_char_digit_char)
qed

lemma no_plus_in_pads:
  "CHR ''+'' \<notin> set (pad2 n)" "CHR ''+'' \<notin> set (pad4 n)" "CHR ''+'' \<notin> set (pad6 n)"
  using digit_char_not_plus [symmetric] by (auto simp: pad2_def pad4_def pad6_def)

lemma replace_from_suffix:
  "CHR ''+'' \<notin> set s \<Longrightarrow> replace_from ''+00:00'' ''Z'' 0 (s @ ''+00:00'') = s @ ''Z''"
proof (induction s)
  case Nil
  show ?case by simp
next
  case (Cons c s)
  then have "c \<noteq> CHR ''+''" by auto
  with Cons show ?case by simp
qed

lemma format_offset_utc: "format_offset 0 = ''+00:00''"
  by code_simp

lemma iso_z_utc:
  assumes "utcoffset dt = Some 0"
  shows "iso_z dt = iso_stem dt @ ''Z''"
proof -
  have iso: "isoformat dt = iso_stem dt @ ''+00:00''"
    using assms by (simp add: isoformat_def format_offset_utc)
  have "CHR ''+'' \<notin> set (iso_stem dt)"
    by (simp add: iso_stem_def no_plus_in_pads)
  then show ?thesis
    unfolding iso_z_def iso py_replace_def
    by (simp add: replace_from_suffix del: replace_from.simps)
qed

lemma datetime_utc_fields:
  assumes "datetime_utc args = Inr dt"
  shows "utcoffset dt = Some 0" and "microsecond dt = 0"
    and "year dt = args ! 0" and "month dt = args ! 1" and "day dt = args ! 2"
    and "hour dt = arg_or 0 args 3" and "minute dt = arg_or 0 args 4"
    and "second dt = arg_or 0 args 5"
  using assms
  by (auto simp: datetime_utc_def Let_def arg_or_def split: list.splits if_splits)

lemma astimezone_utc_offset:
  "astimezone_utc dt = Inr u \<Longrightarrow> utcoffset u = Some 0"
  by (auto simp: astimezone_utc_def Let_def split: if_splits prod.splits)

lemma to_iso_published_parsed:
  assumes "get_published_parsed e = Some pp" "pp \<noteq> []"
  shows "to_iso_datetime L e = map_sum id (\<lambda>dt. Some (iso_z dt)) (datetime_utc (take 6 pp))"
  using assms
  by (cases "datetime_utc (take 6 pp)") (simp_all add: to_iso_datetime_def truthy_def)

lemma to_iso_updated_parsed:
  assumes "\<not> truthy (get_published_parsed e)" "get_updated_parsed e = Some up" "up \<noteq> []"
  shows "to_iso_datetime L e = map_sum id (\<lambda>dt. Some (iso_z dt)) (datetime_utc (take 6 up))"
  using assms
  by (cases "datetime_utc (take 6 up)") (simp_all add: to_iso_datetime_def truthy_def)

lemma to_iso_raw:
  assumes "\<not> truthy (get_published_parsed e)" "\<not> truthy (get_updated_parsed e)"
  shows "to_iso_datetime L e =
     (case py_or (get_published e) (get_updated e) of
        None \<Rightarrow> Inr None
      | Some raw \<Rightarrow>
          if raw = [] then Inr None
          else (case date_parser_parse L raw of
                  Inl err \<Rightarrow> if caught err then Inr None else Inl err
                | Inr d \<Rightarrow>
                    (case utcoffset d of
                       None \<Rightarrow> Inr (Some (iso_z (d\<lparr>utcoffset := Some 0\<rparr>)))
                     | Some off \<Rightarrow>
                         (case astimezone_utc d of
                            Inl err \<Rightarrow> if caught err then Inr None else Inl err
                          | Inr u \<Rightarrow> Inr (Some (iso_z u))))))"
  using assms by (simp add: to_iso_datetime_def)


text \<open>
  Claim C3: a non-empty \<open>published_parsed\<close> decides the result alone; failing that a
  non-empty \<open>updated_parsed\<close> does. The components are passed to \<open>datetime\<close> with the
  time zone UTC, and a datetime it accepts is written as
  \<open>YYYY-MM-DDTHH:MM:SSZ\<close> with exactly those components. With neither, the raw published
  string (or, when that is missing or empty, the raw updated string) is given to the date
  parser: what it refuses with ValueError or TypeError gives null, a naive datetime is
  taken as UTC, an aware one is converted to UTC, and both are written with a trailing
  \<open>Z\<close>. With no raw string either the result is null.
\<close>

theorem date_priority:
  "(get_published_parsed e = Some pp \<and> pp \<noteq> [] \<longrightarrow>
      to_iso_datetime L e = map_sum id (\<lambda>dt. Some (iso_z dt)) (datetime_utc (take 6 pp)))
   \<and> (\<not> truthy (get_published_parsed e) \<and> get_updated_parsed e = Some up \<and> up \<noteq> [] \<longrightarrow>
        to_iso_datetime L e = map_sum id (\<lambda>dt. Some (iso_z dt)) (datetime_utc (take 6 up)))
   \<and> (datetime_utc (take 6 tp) = Inr dt \<longrightarrow>
        utcoffset dt = Some 0
        \<and> year dt = tp ! 0 \<and> month dt = tp ! 1 \<and> day dt = tp ! 2
        \<and> hour dt = arg_or 0 (take 6 tp) 3 \<and> minute dt = arg_or 0 (take 6 tp) 4
        \<and> second dt = arg_or 0 (take 6 tp) 5
        \<and> iso_z dt = pad4 (year dt) @ ''-'' @ pad2 (month dt) @ ''-'' @ pad2 (day dt) @ ''T''
                      @ pad2 (hour dt) @ '':'' @ pad2 (minute dt) @ '':'' @ pad2 (second dt)
                      @ ''Z'')
   \<and> (\<not> truthy (get_published_parsed e) \<and> \<not> truthy (get_updated_parsed e)
        \<and> py_or (get_published e) (get_updated e) = Some raw \<and> raw \<noteq> [] \<longrightarrow>
        (date_parser_parse L raw = Inl err \<and> (err = ValueError \<or> err = TypeError) \<longrightarrow>
           to_iso_datetime L e = Inr None)
        \<and> (date_parser_parse L raw = Inr d \<and> utcoffset d = None \<longrightarrow>
             to_iso_datetime L e = Inr (Some (iso_stem d @ ''Z'')))
        \<and> (date_parser_parse L raw = Inr d \<and> utcoffset d = Some off
             \<and> astimezone_utc d = Inr u \<longrightarrow>
             utcoffset u = Some 0 \<and> to_iso_datetime L e = Inr (Some (iso_stem u @ ''Z''))))
   \<and> (\<not> truthy (get_published_parsed e) \<and> \<not> truthy (get_updated_parsed e)
        \<and> \<not> truthy (get_published e) \<and> \<not> truthy (get_updated e) \<longrightarrow>
        to_iso_datetime L e = Inr None)"
proof (intro conjI impI)
  assume "get_published_parsed e = Some pp \<and> pp \<noteq> []"
  then show "to_iso_datetime L e
               = map_sum id (\<lambda>dt. Some (iso_z dt)) (datetime_utc (take 6 pp))"
    by (simp add: to_iso_published_parsed)
next
  assume "\<not> truthy (get_published_parsed e) \<and> get_updated_parsed e = Some up \<and> up \<noteq> []"
  then show "to_iso_datetime L e
               = map_sum id (\<lambda>dt. Some (iso_z dt)) (datetime_utc (take 6 up))"
    by (simp add: to_iso_updated_parsed)
next
  assume dt: "datetime_utc (take 6 tp) = Inr dt"
  then obtain y m d rest where "take 6 tp = y # m # d # rest"
    by (auto simp: datetime_utc_def split: list.splits)
  then have len: "3 \<le> length (take 6 tp)" by simp
  note f = datetime_utc_fields [OF dt]
  show "utcoffset dt = Some 0" by (rule f)
  show "year dt = tp ! 0" "month dt = tp ! 1" "day dt = tp ! 2"
    using f len by simp_all
  show "hour dt = arg_or 0 (take 6 tp) 3" "minute dt = arg_or 0 (take 6 tp) 4"
    "second dt = arg_or 0 (take 6 tp) 5"
    by (rule f)+
  show "iso_z dt = pad4 (year dt) @ ''-'' @ pad2 (month dt) @ ''-'' @ pad2 (day dt) @ ''T''
                      @ pad2 (hour dt) @ '':'' @ pad2 (minute dt) @ '':'' @ pad2 (second dt)
                      @ ''Z''"
    using f(1,2) by (simp add: iso_z_utc iso_stem_def)
next
  assume a: "\<not> truthy (get_published_parsed e) \<and> \<not> truthy (get_updated_parsed e)
        \<and> py_or (get_published e) (get_updated e) = Some raw \<and> raw \<noteq> []"
    and p: "date_parser_parse L raw = Inl err \<and> (err = ValueError \<or> err = TypeError)"
  then show "to_iso_datetime L e = Inr None"
    by (auto simp: to_iso_raw caught_def)
next
  assume a: "\<not> truthy (get_published_parsed e) \<and> \<not> truthy (get_updated_parsed e)
        \<and> py_or (get_published e) (get_updated e) = Some raw \<and> raw \<noteq> []"
    and p: "date_parser_parse L raw = Inr d \<and> utcoffset d = None"
  have "iso_z (d\<lparr>utcoffset := Some 0\<rparr>) = iso_stem d @ ''Z''"
    by (simp add: iso_z_utc iso_stem_def)
  with a p show "to_iso_datetime L e = Inr (Some (iso_stem d @ ''Z''))"
    by (simp add: to_iso_raw)
next
  assume a: "\<not> truthy (get_published_parsed e) \<and> \<not> truthy (get_updated_parsed e)
        \<and> py_or (get_published e) (get_updated e) = Some raw \<and> raw \<noteq> []"
    and p: "date_parser_parse L raw = Inr d \<and> utcoffset d = Some off
             \<and> astimezone_utc d = Inr u"
  from p have "astimezone_utc d = Inr u" by simp
  then show u: "utcoffset u = Some 0" by (rule astimezone_utc_offset)
  then have "iso_z u = iso_stem u @ ''Z''" by (rule iso_z_utc)
  with a p show "to_iso_datetime L e = Inr (Some (iso_stem u @ ''Z''))"
    by (simp add: to_iso_raw)
next
  assume "\<not> truthy (get_published_parsed e) \<and> \<not> truthy (get_updated_parsed e)
        \<and> \<not> truthy (get_published e) \<and> \<not> truthy (get_updated e)"
  then show "to_iso_datetime L e = Inr None"
    by (auto simp: to_iso_raw py_or_def truthy_def split: option.splits)
qed


theorem date_priority_witness:
  "to_iso_datetime example_env entry_b = Inr (Some ''2023-01-01T00:00:00Z'')
   \<and> to_iso_datetime example_env entry_c = Inr (Some ''2024-01-01T00:00:00Z'')
   \<and> to_iso_datetime example_env (no_entry\<lparr>get_published := Some ''2024-01-01 10:00:00''\<rparr>)
       = Inr (Some ''2024-01-01T10:00:00Z'')
   \<and> to_iso_datetime example_env (no_entry\<lparr>get_updated := Some ''soon''\<rparr>) = Inr None
   \<and> to_iso_datetime
         (example_env\<lparr>date_parser_parse :=
            \<lambda>s. Inr \<lparr>year = 2024, month = 1, day = 1, hour = 1, minute = 30, second = 0,
                      microsecond = 0, utcoffset = Some 7200\<rparr>\<rparr>)
         (no_entry\<lparr>get_updated := Some ''1 Jan 2024 01:30 +0200''\<rparr>)
       = Inr (Some ''2023-12-31T23:30:00Z'')
   \<and> to_iso_datetime example_env no_entry = Inr None"
proof -
  note t = date_priority [where L = example_env]
  have b: "to_iso_datetime example_env entry_b = Inr (Some ''2023-01-01T00:00:00Z'')"
  proof -
    have "to_iso_datetime example_env entry_b =
            map_sum id (\<lambda>dt. Some (iso_z dt)) (datetime_utc (take 6 [2023, 1, 1, 0, 0, 0, 6, 1, 0]))"
      using t [where e = entry_b and pp = "[2023, 1, 1, 0, 0, 0, 6, 1, 0]", THEN conjunct1]
      by (simp add: entry_b_def no_entry_def)
    also have "\<dots> = Inr (Some ''2023-01-01T00:00:00Z'')" by code_simp
    finally show ?thesis .
  qed
  have c: "to_iso_datetime example_env entry_c = Inr (Some ''2024-01-01T00:00:00Z'')"
  proof -
    have "to_iso_datetime example_env entry_c =
            map_sum id (\<lambda>dt. Some (iso_z dt)) (datetime_utc (take 6 [2024, 1, 1, 0, 0, 0, 0, 1, 0]))"
      using t [where e = entry_c and up = "[2024, 1, 1, 0, 0, 0, 0, 1, 0]",
               THEN conjunct2, THEN conjunct1]
      by (simp add: entry_c_def no_entry_def truthy_def)
    also have "\<dots> = Inr (Some ''2024-01-01T00:00:00Z'')" by code_simp
    finally show ?thesis .
  qed
  let ?d = "\<lparr>year = 2024, month = 1, day = 1, hour = 10, minute = 0, second = 0,
             microsecond = 0, utcoffset = None\<rparr>"
  have parse: "date_parser_parse example_env ''2024-01-01 10:00:00'' = Inr ?d"
    "date_parser_parse example_env ''soon'' = Inl ValueError"
    by code_simp+
  have stem: "iso_stem ?d @ ''Z'' = ''2024-01-01T10:00:00Z''" by code_simp
  have n: "to_iso_datetime example_env (no_entry\<lparr>get_published := Some ''2024-01-01 10:00:00''\<rparr>)
             = Inr (Some ''2024-01-01T10:00:00Z'')"
    using t [where e = "no_entry\<lparr>get_published := Some ''2024-01-01 10:00:00''\<rparr>"
               and raw = "''2024-01-01 10:00:00''" and d = ?d,
             THEN conjunct2, THEN conjunct2, THEN conjunct2, THEN conjunct1]
      parse(1) stem
    by (simp add: no_entry_def truthy_def py_or_def)
  have r: "to_iso_datetime example_env (no_entry\<lparr>get_updated := Some ''soon''\<rparr>) = Inr None"
    using t [where e = "no_entry\<lparr>get_updated := Some ''soon''\<rparr>"
               and raw = "''soon''" and err = ValueError,
             THEN conjunct2, THEN conjunct2, THEN conjunct2, THEN conjunct1]
      parse(2)
    by (simp add: no_entry_def truthy_def py_or_def)
  let ?p = "\<lparr>year = 2024, month = 1, day = 1, hour = 1, minute = 30, second = 0,
             microsecond = 0, utcoffset = Some 7200\<rparr>"
  let ?u = "\<lparr>year = 2023, month = 12, day = 31, hour = 23, minute = 30, second = 0,
             microsecond = 0, utcoffset = Some 0\<rparr>"
  have conv: "astimezone_utc ?p = Inr ?u" by code_simp
  have stem_u: "iso_stem ?u @ ''Z'' = ''2023-12-31T23:30:00Z''" by code_simp
  have a: "to_iso_datetime (example_env\<lparr>date_parser_parse := \<lambda>s. Inr ?p\<rparr>)
             (no_entry\<lparr>get_updated := Some ''1 Jan 2024 01:30 +0200''\<rparr>)
           = Inr (Some ''2023-12-31T23:30:00Z'')"
    using date_priority
            [where L = "example_env\<lparr>date_parser_parse := \<lambda>s. Inr ?p\<rparr>"
               and e = "no_entry\<lparr>get_updated := Some ''1 Jan 2024 01:30 +0200''\<rparr>"
               and raw = "''1 Jan 2024 01:30 +0200''" and d = ?p and off = 7200 and u = ?u,
             THEN conjunct2, THEN conjunct2, THEN conjunct2, THEN conjunct1]
      conv stem_u
    by (simp add: no_entry_def truthy_def py_or_def)
  have z: "to_iso_datetime example_env no_entry = Inr None"
    using t [where e = no_entry,
             THEN conjunct2, THEN conjunct2, THEN conjunct2, THEN conjunct2]
    by (simp add: no_entry_def truthy_def)
  from b c n r a z show ?thesis by simp
qed

subsection \<open>Durations\<close>

lemma py_int_ok: "int_ok k s \<Longrightarrow> py_int k s = Inr (decimal_value s)"
  by (auto simp: int_ok_def py_int_def)

lemma py_int_not_ok: "\<not> int_ok k s \<Longrightarrow> py_int k s = Inl ValueError"
  by (auto simp: int_ok_def py_int_def)

lemma py_int_error: "py_int k s = Inl e \<Longrightarrow> e = ValueError"
  by (auto simp: py_int_def split: if_splits)

lemma decimal_is_digit: "isdecimal_char c \<Longrightarrow> isdigit_char c"
  by (simp add: isdecimal_char_def isdigit_char_def Let_def)

lemma int_ok_isdigit: "int_ok k s \<Longrightarrow> py_isdigit s"
  by (auto simp: int_ok_def py_isdigit_def list_all_iff decimal_is_digit)

lemma foldl_decimal_nonneg:
  "0 \<le> a \<Longrightarrow> 0 \<le> foldl (\<lambda>a c. 10 * a + int (digit_val c)) a s"
  by (induction s arbitrary: a) auto

lemma decimal_value_nonneg: "0 \<le> decimal_value s"
  by (simp add: decimal_value_def foldl_decimal_nonneg)

lemma py_int_nonneg: "py_int k s = Inr n \<Longrightarrow> 0 \<le> n"
  by (auto simp: py_int_def decimal_value_nonneg split: if_splits)

lemma sequence_py_int_ok:
  "list_all (int_ok k) parts \<Longrightarrow>
     sequence_sum (map (py_int k) parts) = Inr (map decimal_value parts)"
  by (induction parts) (auto simp: py_int_ok)

lemma sequence_py_int_not_ok:
  "\<not> list_all (int_ok k) parts \<Longrightarrow> sequence_sum (map (py_int k) parts) = Inl ValueError"
proof (induction parts)
  case Nil
  then show ?case by simp
next
  case (Cons p parts)
  show ?case
  proof (cases "int_ok k p")
    case True
    with Cons show ?thesis by (simp add: py_int_ok)
  next
    case False
    then show ?thesis by (simp add: py_int_not_ok)
  qed
qed

lemma sequence_py_int_nonneg:
  assumes "sequence_sum (map (py_int k) parts) = Inr ns"
  shows "list_all (\<lambda>n. 0 \<le> n) ns"
proof -
  from assms have "map (py_int k) parts = map Inr ns"
    by (simp add: sequence_sum_Inr_iff)
  then have "\<forall>i < length ns. py_int k (parts ! i) = Inr (ns ! i)"
    by (metis length_map nth_map)
  then have "\<forall>i < length ns. 0 \<le> ns ! i"
    using py_int_nonneg by blast
  then show ?thesis by (simp add: list_all_length)
qed

lemma parse_duration_str:
  "parse_duration L (Some (DStr s)) =
     (let t = py_strip s
      in if t = [] then Inr None
         else if py_isdigit t then map_sum id Some (py_int (int_max_str_digits L) t)
         else
           (let parts = filter py_isdigit (py_split (CHR '':'') t)
            in if parts = [] then Inr None
               else if \<not> list_all (int_ok (int_max_str_digits L)) parts then Inr None
               else (case map decimal_value parts of
                       [m, s] \<Rightarrow> Inr (Some (m * 60 + s))
                     | [h, m, s] \<Rightarrow> Inr (Some (h * 3600 + m * 60 + s))
                     | _ \<Rightarrow> Inr None)))"
proof -
  let ?k = "int_max_str_digits L"
  let ?t = "py_strip s"
  let ?parts = "filter py_isdigit (py_split (CHR '':'') ?t)"
  have digits: "(case py_int ?k ?t of Inl e \<Rightarrow> Inl e | Inr n \<Rightarrow> Inr (Some n))
                  = map_sum id Some (py_int ?k ?t)"
    by (cases "py_int ?k ?t") simp_all
  have parts: "(case sequence_sum (map (py_int ?k) ?parts) of
                  Inl e \<Rightarrow> if e = ValueError then Inr None else Inl e
                | Inr [minutes, seconds] \<Rightarrow> Inr (Some (minutes * 60 + seconds))
                | Inr [hours, minutes, seconds] \<Rightarrow>
                    Inr (Some (hours * 3600 + minutes * 60 + seconds))
                | Inr _ \<Rightarrow> Inr None)
               = (if \<not> list_all (int_ok ?k) ?parts then Inr None
                  else (case map decimal_value ?parts of
                          [m, s] \<Rightarrow> Inr (Some (m * 60 + s))
                        | [h, m, s] \<Rightarrow> Inr (Some (h * 3600 + m * 60 + s))
                        | _ \<Rightarrow> Inr None))"
  proof (cases "list_all (int_ok ?k) ?parts")
    case True
    then show ?thesis by (simp add: sequence_py_int_ok)
  next
    case False
    then show ?thesis by (simp add: sequence_py_int_not_ok)
  qed
  show ?thesis
    unfolding parse_duration_def Let_def
    by (simp only: option.case duration_raw.case digits parts)
qed

text \<open>
  A string of three segments that all pass \<open>isdigit\<close>, of which two are decimal numbers:
  the claim's rule gives a number of seconds for it under either reading of
  "purely numeric", the code gives null, through its \<open>except ValueError\<close>.
\<close>

theorem parse_duration_counterexample:
  "parse_duration example_env (Some (DStr (''1:'' @ [CHR 0xB2] @ '':3''))) = Inr None
   \<and> filter py_isdigit (py_split (CHR '':'') (py_strip (''1:'' @ [CHR 0xB2] @ '':3'')))
       = [''1'', [CHR 0xB2], ''3'']
   \<and> filter (int_ok 0) (py_split (CHR '':'') (py_strip (''1:'' @ [CHR 0xB2] @ '':3'')))
       = [''1'', ''3'']"
  by code_simp

text \<open>
  Claim C5, as the code has it. \<open>parse_duration\<close> returns null for an absent input and
  an integer as it is. A string is trimmed; empty, it gives null; a string of decimal
  digits (no more than the interpreter's limit) gives its value. A string that does not
  pass \<open>isdigit\<close> is split on \<open>:\<close> and the segments that pass \<open>isdigit\<close> are kept: none
  gives null, a kept segment that \<open>int\<close> refuses gives null, and otherwise two segments
  are minutes and seconds, three are hours, minutes and seconds, any other number gives
  null. (A trimmed string that passes \<open>isdigit\<close> and that \<open>int\<close> refuses is left out
  here: see C6.)
\<close>

theorem parse_duration_cases:
  "parse_duration L None = Inr None
   \<and> parse_duration L (Some (DInt n)) = Inr (Some n)
   \<and> (py_strip s = [] \<longrightarrow> parse_duration L (Some (DStr s)) = Inr None)
   \<and> (int_ok (int_max_str_digits L) (py_strip s) \<longrightarrow>
        parse_duration L (Some (DStr s)) = Inr (Some (decimal_value (py_strip s))))
   \<and> (py_strip s \<noteq> [] \<and> \<not> py_isdigit (py_strip s)
        \<and> parts = filter py_isdigit (py_split (CHR '':'') (py_strip s)) \<longrightarrow>
        (parts = [] \<longrightarrow> parse_duration L (Some (DStr s)) = Inr None)
        \<and> (\<not> list_all (int_ok (int_max_str_digits L)) parts \<longrightarrow>
             parse_duration L (Some (DStr s)) = Inr None)
        \<and> (list_all (int_ok (int_max_str_digits L)) parts \<longrightarrow>
             (\<forall>m sec. parts = [m, sec] \<longrightarrow>
                parse_duration L (Some (DStr s))
                  = Inr (Some (decimal_value m * 60 + decimal_value sec)))
             \<and> (\<forall>h m sec. parts = [h, m, sec] \<longrightarrow>
                  parse_duration L (Some (DStr s))
                    = Inr (Some (decimal_value h * 3600 + decimal_value m * 60
                                 + decimal_value sec)))
             \<and> (length parts \<noteq> 2 \<and> length parts \<noteq> 3 \<longrightarrow>
                  parse_duration L (Some (DStr s)) = Inr None)))
   \<and> (int_max_str_digits L = 0 \<or> 2 \<le> int_max_str_digits L \<longrightarrow>
        parse_duration L (Some (DStr ''01:02:03'')) = Inr (Some 3723)
        \<and> parse_duration L (Some (DStr ''90'')) = Inr (Some 90)
        \<and> parse_duration L (Some (DStr [])) = Inr None
        \<and> parse_duration L (Some (DStr ''abc'')) = Inr None)"
proof (intro conjI impI allI)
  show "parse_duration L None = Inr None" "parse_duration L (Some (DInt n)) = Inr (Some n)"
    by (simp_all add: parse_duration_def)
next
  assume "py_strip s = []"
  then show "parse_duration L (Some (DStr s)) = Inr None"
    by (simp add: parse_duration_str Let_def)
next
  assume ok: "int_ok (int_max_str_digits L) (py_strip s)"
  then have "py_strip s \<noteq> []" "py_isdigit (py_strip s)"
    by (simp add: int_ok_def, rule int_ok_isdigit)
  with ok show "parse_duration L (Some (DStr s)) = Inr (Some (decimal_value (py_strip s)))"
    by (simp add: parse_duration_str py_int_ok Let_def)
next
  assume "py_strip s \<noteq> [] \<and> \<not> py_isdigit (py_strip s)
        \<and> parts = filter py_isdigit (py_split (CHR '':'') (py_strip s))"
    and "parts = []"
  then show "parse_duration L (Some (DStr s)) = Inr None"
    by (simp add: parse_duration_str Let_def)
next
  assume "py_strip s \<noteq> [] \<and> \<not> py_isdigit (py_strip s)
        \<and> parts = filter py_isdigit (py_split (CHR '':'') (py_strip s))"
    and "\<not> list_all (int_ok (int_max_str_digits L)) parts"
  then show "parse_duration L (Some (DStr s)) = Inr None"
    by (simp add: parse_duration_str Let_def)
next
  fix m sec
  assume a: "py_strip s \<noteq> [] \<and> \<not> py_isdigit (py_strip s)
        \<and> parts = filter py_isdigit (py_split (CHR '':'') (py_strip s))"
    and ok: "list_all (int_ok (int_max_str_digits L)) parts" and p: "parts = [m, sec]"
  from ok p have "int_ok (int_max_str_digits L) m" "int_ok (int_max_str_digits L) sec"
    by simp_all
  moreover from a p have "filter py_isdigit (py_split (CHR '':'') (py_strip s)) = [m, sec]"
    by simp
  moreover from a have "py_strip s \<noteq> []" "\<not> py_isdigit (py_strip s)"
    by simp_all
  ultimately show "parse_duration L (Some (DStr s))
               = Inr (Some (decimal_value m * 60 + decimal_value sec))"
    by (simp add: parse_duration_str Let_def)
next
  fix h m sec
  assume a: "py_strip s \<noteq> [] \<and> \<not> py_isdigit (py_strip s)
        \<and> parts = filter py_isdigit (py_split (CHR '':'') (py_strip s))"
    and ok: "list_all (int_ok (int_max_str_digits L)) parts" and p: "parts = [h, m, sec]"
  from ok p have "int_ok (int_max_str_digits L) h" "int_ok (int_max_str_digits L) m"
      "int_ok (int_max_str_digits L) sec"
    by simp_all
  moreover from a p have "filter py_isdigit (py_split (CHR '':'') (py_strip s)) = [h, m, sec]"
    by simp
  moreover from a have "py_strip s \<noteq> []" "\<not> py_isdigit (py_strip s)"
    by simp_all
  ultimately show "parse_duration L (Some (DStr s))
               = Inr (Some (decimal_value h * 3600 + decimal_value m * 60 + decimal_value sec))"
    by (simp add: parse_duration_str Let_def)
next
  assume a: "py_strip s \<noteq> [] \<and> \<not> py_isdigit (py_strip s)
        \<and> parts = filter py_isdigit (py_split (CHR '':'') (py_strip s))"
    and ok: "list_all (int_ok (int_max_str_digits L)) parts"
    and len: "length parts \<noteq> 2 \<and> length parts \<noteq> 3"
  from len have "(case map decimal_value parts of
                    [m, s] \<Rightarrow> Inr (Some (m * 60 + s))
                  | [h, m, s] \<Rightarrow> Inr (Some (h * 3600 + m * 60 + s))
                  | _ \<Rightarrow> (Inr None :: py_error + int option)) = Inr None"
    by (auto split: list.splits)
  with a ok show "parse_duration L (Some (DStr s)) = Inr None"
    by (simp add: parse_duration_str Let_def)
next
  assume k: "int_max_str_digits L = 0 \<or> 2 \<le> int_max_str_digits L"
  have strip: "py_strip ''01:02:03'' = ''01:02:03''" "py_strip ''90'' = ''90''"
    "py_strip [] = []" "py_strip ''abc'' = ''abc''"
    by code_simp+
  have digit: "\<not> py_isdigit ''01:02:03''" "py_isdigit ''90''" "\<not> py_isdigit ''abc''"
    by code_simp+
  have parts: "filter py_isdigit (py_split (CHR '':'') ''01:02:03'') = [''01'', ''02'', ''03'']"
    "filter py_isdigit (py_split (CHR '':'') ''abc'') = []"
    by code_simp+
  have val: "decimal_value ''01'' = 1" "decimal_value ''02'' = 2" "decimal_value ''03'' = 3"
    "decimal_value ''90'' = 90"
    by code_simp+
  have dec: "list_all isdecimal_char ''01''" "list_all isdecimal_char ''02''"
    "list_all isdecimal_char ''03''" "list_all isdecimal_char ''90''"
    by code_simp+
  have ok: "int_ok (int_max_str_digits L) ''01''" "int_ok (int_max_str_digits L) ''02''"
    "int_ok (int_max_str_digits L) ''03''" "int_ok (int_max_str_digits L) ''90''"
    using k dec by (auto simp: int_ok_def)
  show "parse_duration L (Some (DStr ''01:02:03'')) = Inr (Some 3723)"
    by (simp only: parse_duration_str strip Let_def digit parts) (simp add: ok val)
  show "parse_duration L (Some (DStr ''90'')) = Inr (Some 90)"
    by (simp only: parse_duration_str strip Let_def digit) (simp add: ok val py_int_ok)
  show "parse_duration L (Some (DStr [])) = Inr None"
    by (simp only: parse_duration_str strip Let_def) simp
  show "parse_duration L (Some (DStr ''abc'')) = Inr None"
    by (simp only: parse_duration_str strip Let_def digit parts) simp
qed

theorem parse_duration_cases_witness:
  "parse_duration example_env (Some (DStr '' 12:30 '')) = Inr (Some 750)
   \<and> parse_duration example_env (Some (DStr ''1:2:x'')) = Inr (Some 62)
   \<and> parse_duration example_env (Some (DStr ''1:2:3:4'')) = Inr None
   \<and> parse_duration example_env (Some (DStr ''01:02:03'')) = Inr (Some 3723)
   \<and> parse_duration example_env (Some (DStr ''90'')) = Inr (Some 90)
   \<and> parse_duration example_env (Some (DStr ''abc'')) = Inr None"
proof -
  note t = parse_duration_cases [where L = example_env]
  have k: "int_max_str_digits example_env = 4300" by (simp add: example_env_def)
  have a: "py_strip '' 12:30 '' \<noteq> []" "\<not> py_isdigit (py_strip '' 12:30 '')"
    "filter py_isdigit (py_split (CHR '':'') (py_strip '' 12:30 '')) = [''12'', ''30'']"
    "list_all (int_ok 4300) [''12'', ''30'']"
    "decimal_value ''12'' * 60 + decimal_value ''30'' = 750"
    by code_simp+
  have b: "py_strip ''1:2:x'' \<noteq> []" "\<not> py_isdigit (py_strip ''1:2:x'')"
    "filter py_isdigit (py_split (CHR '':'') (py_strip ''1:2:x'')) = [''1'', ''2'']"
    "list_all (int_ok 4300) [''1'', ''2'']"
    "decimal_value ''1'' * 60 + decimal_value ''2'' = 62"
    by code_simp+
  have c: "py_strip ''1:2:3:4'' \<noteq> []" "\<not> py_isdigit (py_strip ''1:2:3:4'')"
    "filter py_isdigit (py_split (CHR '':'') (py_strip ''1:2:3:4'')) = [''1'', ''2'', ''3'', ''4'']"
    "list_all (int_ok 4300) [''1'', ''2'', ''3'', ''4'']"
    by code_simp+
  have "parse_duration example_env (Some (DStr '' 12:30 '')) = Inr (Some 750)"
    using t [where s = "'' 12:30 ''" and parts = "[''12'', ''30'']",
             THEN conjunct2, THEN conjunct2, THEN conjunct2, THEN conjunct2, THEN conjunct1]
      a k
    by simp
  moreover have "parse_duration example_env (Some (DStr ''1:2:x'')) = Inr (Some 62)"
    using t [where s = "''1:2:x''" and parts = "[''1'', ''2'']",
             THEN conjunct2, THEN conjunct2, THEN conjunct2, THEN conjunct2, THEN conjunct1]
      b k
    by simp
  moreover have "parse_duration example_env (Some (DStr ''1:2:3:4'')) = Inr None"
    using t [where s = "''1:2:3:4''" and parts = "[''1'', ''2'', ''3'', ''4'']",
             THEN conjunct2, THEN conjunct2, THEN conjunct2, THEN conjunct2, THEN conjunct1]
      c k
    by simp
  moreover have "parse_duration example_env (Some (DStr ''01:02:03'')) = Inr (Some 3723)
      \<and> parse_duration example_env (Some (DStr ''90'')) = Inr (Some 90)
      \<and> parse_duration example_env (Some (DStr ''abc'')) = Inr None"
    using t [THEN conjunct2, THEN conjunct2, THEN conjunct2, THEN conjunct2, THEN conjunct2] k
    by simp
  ultimately show ?thesis by simp
qed

lemma parse_duration_str_nonneg:
  assumes "parse_duration L (Some (DStr s)) = Inr (Some d)"
  shows "0 \<le> d"
proof -
  let ?k = "int_max_str_digits L"
  let ?t = "py_strip s"
  let ?parts = "filter py_isdigit (py_split (CHR '':'') ?t)"
  show ?thesis
  proof (cases "py_isdigit ?t")
    case True
    with assms have "py_int ?k ?t = Inr d"
      by (cases "py_int ?k ?t") (auto simp: parse_duration_str Let_def split: if_splits)
    then show ?thesis by (rule py_int_nonneg)
  next
    case False
    have nonneg: "\<And>p. 0 \<le> decimal_value p" by (rule decimal_value_nonneg)
    from assms False
    have "(case map decimal_value ?parts of
             [m, s] \<Rightarrow> Inr (Some (m * 60 + s))
           | [h, m, s] \<Rightarrow> Inr (Some (h * 3600 + m * 60 + s))
           | _ \<Rightarrow> (Inr None :: py_error + int option)) = Inr (Some d)"
      by (auto simp: parse_duration_str Let_def split: if_splits)
    then consider m sec where "?parts = [m, sec]" "d = decimal_value m * 60 + decimal_value sec"
      | h m sec where "?parts = [h, m, sec]"
          "d = decimal_value h * 3600 + decimal_value m * 60 + decimal_value sec"
      by (auto split: list.splits)
    then show ?thesis
    proof cases
      case 1
      then show ?thesis using nonneg [of m] nonneg [of sec] by simp
    next
      case 2
      then show ?thesis using nonneg [of h] nonneg [of m] nonneg [of sec] by simp
    qed
  qed
qed

text \<open>
  An integer duration is returned as it is, so a negative one reaches the episode.
\<close>

theorem negative_duration_counterexample:
  "parse_duration example_env (Some (DInt (- 5))) = Inr (Some (- 5))
   \<and> map_sum id duration
        (normalize_entry example_env (entry_d\<lparr>get_itunes_duration := Some (DInt (- 5))\<rparr>))
       = Inr (Some (- 5))"
  by code_simp

text \<open>
  Claim C7, as the code has it: the duration of an episode is null or an integer. It is
  null when the entry has no duration, the integer itself when the entry's duration is an
  integer, and null or a non-negative number when it is a string; so it is null or
  non-negative for every entry whose raw duration is not a negative integer.
\<close>

theorem duration_sign:
  "normalize_entry L e = Inr ep \<longrightarrow>
     (get_itunes_duration e = None \<longrightarrow> duration ep = None)
     \<and> (get_itunes_duration e = Some (DInt n) \<longrightarrow> duration ep = Some n)
     \<and> (get_itunes_duration e = Some (DStr s) \<longrightarrow>
          duration ep = None \<or> (\<exists>d. duration ep = Some d \<and> 0 \<le> d))
     \<and> ((\<forall>k. get_itunes_duration e = Some (DInt k) \<longrightarrow> 0 \<le> k) \<longrightarrow>
          duration ep = None \<or> (\<exists>d. duration ep = Some d \<and> 0 \<le> d))"
proof (intro impI)
  assume "normalize_entry L e = Inr ep"
  then have pd: "parse_duration L (get_itunes_duration e) = Inr (duration ep)"
    by (rule normalize_entry_fields)
  have none: "get_itunes_duration e = None \<Longrightarrow> duration ep = None"
    using pd by (simp add: parse_duration_def)
  have int: "\<And>k. get_itunes_duration e = Some (DInt k) \<Longrightarrow> duration ep = Some k"
    using pd by (simp add: parse_duration_def)
  have str: "\<And>s. get_itunes_duration e = Some (DStr s) \<Longrightarrow>
               duration ep = None \<or> (\<exists>d. duration ep = Some d \<and> 0 \<le> d)"
  proof -
    fix s
    assume "get_itunes_duration e = Some (DStr s)"
    with pd have "parse_duration L (Some (DStr s)) = Inr (duration ep)" by simp
    then show "duration ep = None \<or> (\<exists>d. duration ep = Some d \<and> 0 \<le> d)"
      using parse_duration_str_nonneg [of L s] by (cases "duration ep") auto
  qed
  have all: "(\<forall>k. get_itunes_duration e = Some (DInt k) \<longrightarrow> 0 \<le> k) \<Longrightarrow>
               duration ep = None \<or> (\<exists>d. duration ep = Some d \<and> 0 \<le> d)"
  proof -
    assume pos: "\<forall>k. get_itunes_duration e = Some (DInt k) \<longrightarrow> 0 \<le> k"
    show "duration ep = None \<or> (\<exists>d. duration ep = Some d \<and> 0 \<le> d)"
    proof (cases "get_itunes_duration e")
      case None
      then show ?thesis by (simp add: none)
    next
      case (Some raw)
      then show ?thesis
        using pos int str by (cases raw) auto
    qed
  qed
  show "(get_itunes_duration e = None \<longrightarrow> duration ep = None)
     \<and> (get_itunes_duration e = Some (DInt n) \<longrightarrow> duration ep = Some n)
     \<and> (get_itunes_duration e = Some (DStr s) \<longrightarrow>
          duration ep = None \<or> (\<exists>d. duration ep = Some d \<and> 0 \<le> d))
     \<and> ((\<forall>k. get_itunes_duration e = Some (DInt k) \<longrightarrow> 0 \<le> k) \<longrightarrow>
          duration ep = None \<or> (\<exists>d. duration ep = Some d \<and> 0 \<le> d))"
    using none int str all by blast
qed

lemma example_normalized:
  "normalize_entry example_env (entry_d\<lparr>get_itunes_duration := Some (DStr ''12:30'')\<rparr>)
     = Inr ((episode_at ''D'' None)\<lparr>episode_id := ''d'', duration := Some 750\<rparr>)"
  "normalize_entry example_env (entry_d\<lparr>get_itunes_duration := Some (DInt 7)\<rparr>)
     = Inr ((episode_at ''D'' None)\<lparr>episode_id := ''d'', duration := Some 7\<rparr>)"
  by code_simp+

theorem duration_sign_witness:
  "duration ((episode_at ''D'' None)\<lparr>episode_id := ''d'', duration := Some 7\<rparr>) = Some 7
   \<and> (duration ((episode_at ''D'' None)\<lparr>episode_id := ''d'', duration := Some 750\<rparr>) = None
        \<or> (\<exists>d. duration ((episode_at ''D'' None)\<lparr>episode_id := ''d'', duration := Some 750\<rparr>)
                  = Some d \<and> 0 \<le> d))"
proof -
  have "duration ((episode_at ''D'' None)\<lparr>episode_id := ''d'', duration := Some 7\<rparr>) = Some 7"
    using duration_sign [where L = example_env
        and e = "entry_d\<lparr>get_itunes_duration := Some (DInt 7)\<rparr>" and n = 7,
        THEN mp, OF example_normalized(2), THEN conjunct2, THEN conjunct1]
    by simp
  moreover have "duration ((episode_at ''D'' None)\<lparr>episode_id := ''d'', duration := Some 750\<rparr>) = None
        \<or> (\<exists>d. duration ((episode_at ''D'' None)\<lparr>episode_id := ''d'', duration := Some 750\<rparr>)
                  = Some d \<and> 0 \<le> d)"
    using duration_sign [where L = example_env
        and e = "entry_d\<lparr>get_itunes_duration := Some (DStr ''12:30'')\<rparr>" and s = "''12:30''",
        THEN mp, OF example_normalized(1), THEN conjunct2, THEN conjunct2, THEN conjunct1]
    by simp
  ultimately show ?thesis by (rule conjI)
qed

subsection \<open>Entries that do not normalize\<close>

lemma sequence_sum_raises:
  assumes "x \<in> set xs" "f x = Inl e"
  shows "\<exists>e'. sequence_sum (map f xs) = Inl e'"
  using assms
proof (induction xs)
  case Nil
  then show ?case by simp
next
  case (Cons y ys)
  show ?case
  proof (cases "f y")
    case (Inl a)
    then show ?thesis by simp
  next
    case (Inr v)
    with Cons.prems have "x \<in> set ys" by auto
    with Cons.IH Cons.prems obtain e' where "sequence_sum (map f ys) = Inl e'" by blast
    with Inr show ?thesis by simp
  qed
qed

lemma leap_second_raises: "to_iso_datetime L entry_leap_second = Inl ValueError"
  by (simp add: to_iso_datetime_def entry_leap_second_def no_entry_def truthy_def
      datetime_utc_def arg_or_def c_int_def days_in_month_def Let_def)

lemma superscript_raises: "parse_duration L (Some (DStr [CHR 0xB2])) = Inl ValueError"
proof -
  have "py_strip [CHR 0xB2] = [CHR 0xB2]" "py_isdigit [CHR 0xB2]"
    "\<not> list_all isdecimal_char [CHR 0xB2]"
    by code_simp+
  then show ?thesis
    by (simp add: parse_duration_str Let_def py_int_def)
qed

lemma year_one_overflows:
  assumes "raw \<noteq> []"
    and "date_parser_parse L raw =
           Inr \<lparr>year = 1, month = 1, day = 1, hour = 0, minute = 0, second = 0,
                microsecond = 0, utcoffset = Some 18000\<rparr>"
  shows "to_iso_datetime L (no_entry\<lparr>get_published := Some raw\<rparr>) = Inl OverflowError"
proof -
  have "astimezone_utc \<lparr>year = 1, month = 1, day = 1, hour = 0, minute = 0, second = 0,
                         microsecond = 0, utcoffset = Some 18000\<rparr> = Inl OverflowError"
    by code_simp
  with assms show ?thesis
    by (simp add: to_iso_raw no_entry_def truthy_def py_or_def caught_def)
qed

text \<open>
  Claim C6 fails on the code. A published time tuple whose second is 60 makes
  \<open>datetime\<close> raise ValueError inside \<open>to_iso_datetime\<close>, where nothing catches it, and a
  duration whose only character is a superscript digit passes \<open>isdigit\<close> and makes
  \<open>int\<close> raise ValueError inside \<open>parse_duration\<close>, outside its \<open>try\<close>. Either exception
  leaves \<open>normalize_entry\<close>, and one such entry anywhere in the feed ends the building of
  the whole episode list. A raw date that the parser reads as the first hour of year 1
  at five hours east of UTC makes the conversion to UTC raise OverflowError, which the
  \<open>except (ValueError, TypeError)\<close> around it lets through.
\<close>

theorem normalization_raises:
  "to_iso_datetime L entry_leap_second = Inl ValueError
   \<and> normalize_entry L entry_leap_second = Inl ValueError
   \<and> parse_duration L (get_itunes_duration entry_superscript) = Inl ValueError
   \<and> normalize_entry L entry_superscript = Inl ValueError
   \<and> (entry_leap_second \<in> set es \<or> entry_superscript \<in> set es \<longrightarrow>
        (\<exists>err. build_episodes L max_n es = Inl err))
   \<and> (raw \<noteq> []
        \<and> date_parser_parse L raw =
              Inr \<lparr>year = 1, month = 1, day = 1, hour = 0, minute = 0, second = 0,
                   microsecond = 0, utcoffset = Some 18000\<rparr> \<longrightarrow>
        to_iso_datetime L (no_entry\<lparr>get_published := Some raw\<rparr>) = Inl OverflowError)"
proof (intro conjI impI)
  show a: "to_iso_datetime L entry_leap_second = Inl ValueError"
    by (rule leap_second_raises)
  then show b: "normalize_entry L entry_leap_second = Inl ValueError"
    by (simp add: normalize_entry_def)
  show c: "parse_duration L (get_itunes_duration entry_superscript) = Inl ValueError"
    by (simp add: entry_superscript_def no_entry_def superscript_raises)
  have "to_iso_datetime L entry_superscript = Inr None"
    by (simp add: to_iso_datetime_def entry_superscript_def no_entry_def truthy_def py_or_def)
  moreover have "strip_html L (py_or (py_or (get_summary entry_superscript)
                    (get_description entry_superscript)) (Some [])) = Inr []"
    by (simp add: strip_html_def entry_superscript_def no_entry_def truthy_def py_or_def)
  ultimately show d: "normalize_entry L entry_superscript = Inl ValueError"
    using c by (simp add: normalize_entry_def Let_def)
  assume "entry_leap_second \<in> set es \<or> entry_superscript \<in> set es"
  then have "\<exists>e'. sequence_sum (map (normalize_entry L) es) = Inl e'"
    using sequence_sum_raises [of _ es "normalize_entry L"] b d by blast
  then show "\<exists>err. build_episodes L max_n es = Inl err"
    by (auto simp: build_episodes_raises)
next
  assume "raw \<noteq> []
        \<and> date_parser_parse L raw =
              Inr \<lparr>year = 1, month = 1, day = 1, hour = 0, minute = 0, second = 0,
                   microsecond = 0, utcoffset = Some 18000\<rparr>"
  then show "to_iso_datetime L (no_entry\<lparr>get_published := Some raw\<rparr>) = Inl OverflowError"
    by (simp add: year_one_overflows)
qed

theorem normalization_raises_witness:
  "to_iso_datetime example_env entry_leap_second = Inl ValueError
   \<and> normalize_entry example_env entry_superscript = Inl ValueError
   \<and> (\<exists>err. build_episodes example_env (Some 1) [entry_b, entry_d, entry_leap_second] = Inl err)"
  using normalization_raises
          [where L = example_env and es = "[entry_b, entry_d, entry_leap_second]"
             and max_n = "Some 1" and raw = "[]"]
  by simp

end
